theory Spec2Isabelle
  imports
    Complex_Main
    "HOL-Library.Multiset"
    "HOL-Library.Char_ord"
    "HOL-Library.List_Lexorder"
    "HOL-Library.Product_Lexorder"
begin

section \<open>The review queue of web/src/lib/db.ts and its HTTP handlers\<close>

text \<open>
  The embedding follows \<^verbatim>\<open>web/src/lib/db.ts\<close> (the functions from
  \<^verbatim>\<open>getCollectionCreation\<close> to \<^verbatim>\<open>getReviewQueueByDeck\<close>) and the
  route \<^verbatim>\<open>/api/review\<close> (its \<^verbatim>\<open>GET\<close> and \<^verbatim>\<open>POST\<close>).
  SQLite INTEGER columns and the JavaScript numbers that hold them are \<open>int\<close>.
  What the code takes from outside is a part of the state: the database tables, the
  clock behind \<^verbatim>\<open>Date.now()\<close> and the source behind \<^verbatim>\<open>Math.random()\<close>.
\<close>

subsection \<open>Tables\<close>

text \<open>
  A row of \<^verbatim>\<open>cards\<close>, with the columns that the queries read or write
  (the interface \<^verbatim>\<open>Card\<close>, and \<^verbatim>\<open>mod\<close>, which the updates set).
\<close>

record Card =
  c_id :: int
  c_nid :: int
  c_did :: int
  c_ord :: int
  c_mod :: int
  c_type :: int
  c_queue :: int
  c_due :: int
  c_ivl :: int
  c_factor :: int
  c_reps :: int
  c_lapses :: int

text \<open>The interface \<^verbatim>\<open>CardWithNote extends Card\<close>: a row of the three-table join.\<close>

record CardWithNote = Card +
  note_flds :: string
  note_tags :: string
  deck_name :: string

record Note =
  n_id :: int
  n_flds :: string
  n_tags :: string

record Deck =
  d_id :: int
  d_name :: string

subsection \<open>The clock and the random source\<close>

text \<open>
  \<^verbatim>\<open>Date.now()\<close> returns milliseconds. The clock is the sequence of the readings that
  successive calls return, with the number of readings taken so far: every call of
  \<^verbatim>\<open>Date.now()\<close> in the source is one \<open>Date_now\<close> here, so two calls in one function
  are two readings.
\<close>

record rng =
  source :: "nat \<Rightarrow> real"
  drawn :: nat

record world =
  clock :: "nat \<Rightarrow> int"
  ticks :: nat
  random :: rng
  col_crt :: "int option"
  cards_table :: "Card list"
  notes_table :: "Note list"
  decks_table :: "Deck list"

definition Date_now :: "world \<Rightarrow> int \<times> world" where
  "Date_now w = (clock w (ticks w), w\<lparr>ticks := Suc (ticks w)\<rparr>)"

text \<open>The expression \<^verbatim>\<open>Math.floor(Date.now() / 1000)\<close>.\<close>

definition unix_now :: "world \<Rightarrow> int \<times> world" where
  "unix_now w = (let (ms, w') = Date_now w in (ms div 1000, w'))"

text \<open>
  \<^verbatim>\<open>Math.random()\<close> returns a number \<open>r\<close> with \<open>0 \<le> r < 1\<close>; the source is the
  sequence of the numbers drawn, read here as real numbers, and \<open>unit_interval\<close>
  says that all of them are in that range. The product and the floor of
  \<^verbatim>\<open>Math.floor(Math.random() * (i + 1))\<close> are exact here; in either reading the
  result is one of the indices \<open>0, \<dots>, i\<close>.
\<close>

definition Math_random :: "rng \<Rightarrow> real \<times> rng" where
  "Math_random g = (source g (drawn g), g\<lparr>drawn := Suc (drawn g)\<rparr>)"

definition unit_interval :: "rng \<Rightarrow> bool" where
  "unit_interval g = (\<forall>k. 0 \<le> source g k \<and> source g k < 1)"

subsection \<open>Day numbers\<close>

definition URGENT_DECK_ID :: int where
  "URGENT_DECK_ID = 1740140533109"

text \<open>
  \<^verbatim>\<open>SELECT crt FROM col\<close> gives a row or \<^verbatim>\<open>undefined\<close> (\<open>col_crt\<close> is \<open>None\<close>
  then); \<^verbatim>\<open>col?.crt || Math.floor(Date.now() / 1000)\<close> reads the clock when there is
  no row and also when \<^verbatim>\<open>crt\<close> is 0.
\<close>

definition getCollectionCreation :: "world \<Rightarrow> int \<times> world" where
  "getCollectionCreation w =
     (case col_crt w of
        None \<Rightarrow> unix_now w
      | Some crt \<Rightarrow> if crt \<noteq> 0 then (crt, w) else unix_now w)"

definition getTodayDayNumber :: "world \<Rightarrow> int \<times> world" where
  "getTodayDayNumber w =
     (let (crt, w1) = getCollectionCreation w;
          (now, w2) = unix_now w1
      in ((now - crt) div 86400, w2))"

subsection \<open>The queue queries\<close>

text \<open>
  The condition shared by the five queries:
  \<^verbatim>\<open>queue >= 0 AND ((queue = 2 AND due <= ?) OR (queue IN (1, 3) AND due <= ?) OR (queue = 0))\<close>,
  with \<^verbatim>\<open>todayDayNum\<close> and \<^verbatim>\<open>nowTimestamp\<close> bound to the two parameters.
\<close>

definition is_due :: "int \<Rightarrow> int \<Rightarrow> 'a Card_scheme \<Rightarrow> bool" where
  "is_due todayDayNum nowTimestamp c =
     (c_queue c \<ge> 0 \<and>
      ((c_queue c = 2 \<and> c_due c \<le> todayDayNum) \<or>
       (c_queue c \<in> {1, 3} \<and> c_due c \<le> nowTimestamp) \<or>
       (c_queue c = 0)))"

text \<open>
  \<^verbatim>\<open>FROM cards c JOIN notes n ON c.nid = n.id JOIN decks d ON c.did = d.id\<close> with the
  selected columns: one row for each card, each note of its \<^verbatim>\<open>nid\<close> and each deck of
  its \<^verbatim>\<open>did\<close>.
\<close>

definition join_row :: "Card \<Rightarrow> Note \<Rightarrow> Deck \<Rightarrow> CardWithNote" where
  "join_row c n d = Card.extend c
     (CardWithNote.fields (n_flds n) (n_tags n) (d_name d))"

definition cards_notes_decks :: "world \<Rightarrow> CardWithNote list" where
  "cards_notes_decks w =
     concat (map (\<lambda>c.
       concat (map (\<lambda>n. map (\<lambda>d. join_row c n d)
                              (filter (\<lambda>d. c_did c = d_id d) (decks_table w)))
                   (filter (\<lambda>n. c_nid c = n_id n) (notes_table w))))
       (cards_table w))"

text \<open>The second query of \<^verbatim>\<open>getReviewQueue\<close> (all decks).\<close>

definition select_due :: "world \<Rightarrow> int \<Rightarrow> int \<Rightarrow> CardWithNote list" where
  "select_due w todayDayNum nowTimestamp =
     filter (is_due todayDayNum nowTimestamp) (cards_notes_decks w)"

text \<open>
  The query with \<^verbatim>\<open>WHERE c.did = ? AND ...\<close>: the first one of
  \<^verbatim>\<open>getReviewQueue\<close> (bound to \<^verbatim>\<open>URGENT_DECK_ID\<close>) and the one of
  \<^verbatim>\<open>getReviewQueueByDeck\<close>.
\<close>

definition select_due_in_deck :: "world \<Rightarrow> int \<Rightarrow> int \<Rightarrow> int \<Rightarrow> CardWithNote list" where
  "select_due_in_deck w deckId todayDayNum nowTimestamp =
     filter (\<lambda>c. c_did c = deckId \<and> is_due todayDayNum nowTimestamp c) (cards_notes_decks w)"

text \<open>
  The eligibility rule in the words of the specification, section 4.1
  (\<open>computeEligible\<close>): not suspended, and review and due by day, or learning or
  relearning and due by second, or new.
\<close>

definition eligible_spec :: "int \<Rightarrow> int \<Rightarrow> 'a Card_scheme \<Rightarrow> bool" where
  "eligible_spec dayNumber now c =
     (c_queue c \<noteq> - 1 \<and>
      ((c_queue c = 2 \<and> c_due c \<le> dayNumber) \<or>
       ((c_queue c = 1 \<or> c_queue c = 3) \<and> c_due c \<le> now) \<or>
       c_queue c = 0))"

subsection \<open>Shuffling\<close>

text \<open>
  \<^verbatim>\<open>[result[i], result[j]] = [result[j], result[i]]\<close>: both elements are read, then
  \<^verbatim>\<open>result[i]\<close> is written, then \<^verbatim>\<open>result[j]\<close>. Both indices are inside the
  array when the random numbers are in the unit interval; what JavaScript does with an
  index outside (it reads \<^verbatim>\<open>undefined\<close> and lengthens the array) is not modelled, and
  the statements about the elements of the result assume \<open>unit_interval\<close>.
\<close>

definition swap :: "'a list \<Rightarrow> nat \<Rightarrow> nat \<Rightarrow> 'a list" where
  "swap result i j = (result[i := result ! j])[j := result ! i]"

text \<open>
  The loop \<^verbatim>\<open>for (let i = result.length - 1; i > 0; i--)\<close>, started at its first
  argument, with \<^verbatim>\<open>j = Math.floor(Math.random() * (i + 1))\<close>.
\<close>

fun shuffle_loop :: "nat \<Rightarrow> 'a list \<Rightarrow> rng \<Rightarrow> 'a list \<times> rng" where
  "shuffle_loop 0 result g = (result, g)"
| "shuffle_loop (Suc n) result g =
     (let i = Suc n;
          (r, g') = Math_random g;
          j = nat \<lfloor>r * real (i + 1)\<rfloor>
      in shuffle_loop n (swap result i j) g')"

text \<open>
  \<^verbatim>\<open>shuffleArray\<close> on values: \<^verbatim>\<open>[...array]\<close> is the list itself, and an empty
  array (where \<^verbatim>\<open>result.length - 1\<close> is \<open>-1\<close>) runs the loop no more often than
  one of length 1 does.
\<close>

definition shuffleArray :: "'a list \<Rightarrow> rng \<Rightarrow> 'a list \<times> rng" where
  "shuffleArray array g = shuffle_loop (length array - 1) array g"

definition shuffled :: "'a list \<Rightarrow> world \<Rightarrow> 'a list \<times> world" where
  "shuffled array w = (let (result, g) = shuffleArray array (random w) in (result, w\<lparr>random := g\<rparr>))"

subsection \<open>Shuffling, on a store of arrays\<close>

text \<open>
  JavaScript arrays are objects passed by reference. For the question whether
  \<^verbatim>\<open>shuffleArray\<close> writes to its argument, arrays live in a store: a reference is an
  index into the list of all arrays, \<^verbatim>\<open>[...array]\<close> allocates a new array, and the
  loop reads and writes the store at the reference \<^verbatim>\<open>result\<close>.
\<close>

type_synonym 'a store = "'a list list"

definition spread_copy :: "'a store \<Rightarrow> nat \<Rightarrow> nat \<times> 'a store" where
  "spread_copy h array = (length h, h @ [h ! array])"

definition array_get :: "'a store \<Rightarrow> nat \<Rightarrow> nat \<Rightarrow> 'a" where
  "array_get h a i = h ! a ! i"

definition array_set :: "'a store \<Rightarrow> nat \<Rightarrow> nat \<Rightarrow> 'a \<Rightarrow> 'a store" where
  "array_set h a i v = h[a := (h ! a)[i := v]]"

fun shuffle_loop_ref :: "nat \<Rightarrow> nat \<Rightarrow> 'a store \<Rightarrow> rng \<Rightarrow> 'a store \<times> rng" where
  "shuffle_loop_ref 0 result h g = (h, g)"
| "shuffle_loop_ref (Suc n) result h g =
     (let i = Suc n;
          (r, g') = Math_random g;
          j = nat \<lfloor>r * real (i + 1)\<rfloor>;
          vj = array_get h result j;
          vi = array_get h result i;
          h1 = array_set h result i vj;
          h2 = array_set h1 result j vi
      in shuffle_loop_ref n result h2 g')"

definition shuffleArray_ref :: "'a store \<Rightarrow> nat \<Rightarrow> rng \<Rightarrow> nat \<times> 'a store \<times> rng" where
  "shuffleArray_ref h array g =
     (let (result, h1) = spread_copy h array;
          (h2, g') = shuffle_loop_ref (length (h1 ! result) - 1) result h1 g
      in (result, h2, g'))"

subsection \<open>The queue functions\<close>

definition getReviewQueue :: "world \<Rightarrow> bool \<Rightarrow> CardWithNote list \<times> world" where
  "getReviewQueue w includeNonUrgent =
     (let (todayDayNum, w1) = getTodayDayNumber w;
          (nowTimestamp, w2) = unix_now w1;
          urgentCards = select_due_in_deck w2 URGENT_DECK_ID todayDayNum nowTimestamp;
          (shuffledUrgent, w3) = shuffled urgentCards w2
      in if length shuffledUrgent > 0 \<and> \<not> includeNonUrgent then (shuffledUrgent, w3)
         else let allDueCards = select_due w3 todayDayNum nowTimestamp
              in shuffled allDueCards w3)"

text \<open>\<^verbatim>\<open>SELECT COUNT(*) FROM cards WHERE did = ? AND ...\<close>: no join here.\<close>

definition getUrgentCount :: "world \<Rightarrow> nat \<times> world" where
  "getUrgentCount w =
     (let (todayDayNum, w1) = getTodayDayNumber w;
          (nowTimestamp, w2) = unix_now w1
      in (length (filter (\<lambda>c. c_did c = URGENT_DECK_ID \<and> is_due todayDayNum nowTimestamp c)
                         (cards_table w2)), w2))"

text \<open>
  \<^verbatim>\<open>deckId\<close> is a JavaScript number; the route passes the result of
  \<^verbatim>\<open>parseInt\<close>, which may be \<^verbatim>\<open>NaN\<close>. \<open>None\<close> stands for \<^verbatim>\<open>NaN\<close>, which
  SQLite binds as NULL, so that \<^verbatim>\<open>c.did = ?\<close> holds for no row.
\<close>

definition getReviewQueueByDeck :: "world \<Rightarrow> int option \<Rightarrow> CardWithNote list \<times> world" where
  "getReviewQueueByDeck w deckId =
     (let (todayDayNum, w1) = getTodayDayNumber w;
          (nowTimestamp, w2) = unix_now w1;
          cards = (case deckId of
                     Some d \<Rightarrow> select_due_in_deck w2 d todayDayNum nowTimestamp
                   | None \<Rightarrow> [])
      in shuffled cards w2)"

subsection \<open>Decks with their due counts\<close>

record DeckDue =
  dd_id :: int
  dd_name :: string
  dueCount :: nat

text \<open>SQLite's \<^verbatim>\<open>LOWER\<close> changes the letters A to Z only.\<close>

definition lower_char :: "char \<Rightarrow> char" where
  "lower_char c = (let n = (of_char c :: nat) in if 65 \<le> n \<and> n \<le> 90 then char_of (n + 32) else c)"

definition LOWER :: "string \<Rightarrow> string" where
  "LOWER s = map lower_char s"

text \<open>
  \<^verbatim>\<open>decks d LEFT JOIN cards c ON c.did = d.id AND ... GROUP BY d.id HAVING dueCount > 0\<close>
  with \<^verbatim>\<open>COUNT(c.id)\<close>: \<^verbatim>\<open>decks.id\<close> is the primary key, so a group is one deck and
  its count is the number of its due cards. The order is
  \<^verbatim>\<open>CASE WHEN d.id = ? THEN 0 ELSE 1 END, dueCount DESC, LOWER(d.name)\<close>, strings
  compared byte by byte; rows equal in all three keep the order of the table.
\<close>

definition getDecksWithDueCounts :: "world \<Rightarrow> DeckDue list \<times> world" where
  "getDecksWithDueCounts w =
     (let (todayDayNum, w1) = getTodayDayNumber w;
          (nowTimestamp, w2) = unix_now w1;
          counted = map (\<lambda>d. \<lparr>dd_id = d_id d, dd_name = d_name d,
                               dueCount = length (filter (\<lambda>c. c_did c = d_id d \<and>
                                                    is_due todayDayNum nowTimestamp c)
                                                  (cards_table w2))\<rparr>)
                        (decks_table w2);
          having = filter (\<lambda>r. dueCount r > 0) counted
      in (sort_key (\<lambda>r. (if dd_id r = URGENT_DECK_ID then 0 else 1 :: nat,
                          - int (dueCount r), LOWER (dd_name r))) having, w2))"

subsection \<open>Recording a review\<close>

text \<open>\<^verbatim>\<open>UPDATE cards SET ... WHERE id = ?\<close>: every row with that id is rewritten.\<close>

definition update_cards :: "world \<Rightarrow> int \<Rightarrow> (Card \<Rightarrow> Card) \<Rightarrow> world" where
  "update_cards w cardId f =
     w\<lparr>cards_table := map (\<lambda>c. if c_id c = cardId then f c else c) (cards_table w)\<rparr>"

text \<open>What a JavaScript call may throw.\<close>

datatype error = Exception string

text \<open>
  \<^verbatim>\<open>updateCardSchedule\<close> returns nothing; \<open>Inr\<close> is its normal completion with the
  new state. Its \<^verbatim>\<open>action\<close> has the type
  \<^verbatim>\<open>'repeat' | 'soon' | 'later' | 'complete'\<close>, which is erased when the program runs:
  the \<^verbatim>\<open>switch\<close> compares a string, and it has no \<^verbatim>\<open>default\<close>. No statement of
  the body throws.
\<close>

definition updateCardSchedule :: "world \<Rightarrow> int \<Rightarrow> string \<Rightarrow> error + world" where
  "updateCardSchedule w cardId action =
     (let (now, w1) = unix_now w;
          (todayDayNum, w2) = getTodayDayNumber w1
      in if action = ''repeat'' then
           Inr (update_cards w2 cardId
             (\<lambda>c. c\<lparr>c_due := now, c_ivl := 0, c_mod := now, c_reps := c_reps c + 1,
                     c_type := 1, c_queue := 1\<rparr>))
         else if action = ''soon'' then
           Inr (update_cards w2 cardId
             (\<lambda>c. c\<lparr>c_due := todayDayNum + 1, c_ivl := 1, c_mod := now, c_reps := c_reps c + 1,
                     c_type := 2, c_queue := 2\<rparr>))
         else if action = ''later'' then
           Inr (update_cards w2 cardId
             (\<lambda>c. c\<lparr>c_due := todayDayNum + 7, c_ivl := 7, c_mod := now, c_reps := c_reps c + 1,
                     c_type := 2, c_queue := 2\<rparr>))
         else if action = ''complete'' then
           Inr (update_cards w2 cardId
             (\<lambda>c. c\<lparr>c_queue := - 1, c_mod := now, c_reps := c_reps c + 1\<rparr>))
         else Inr w2)"

subsection \<open>The route /api/review\<close>

text \<open>
  The JSON bodies that the two handlers answer with, and the HTTP status (200 where
  the source gives none).
\<close>

datatype response =
  DecksBody "DeckDue list" int
| QueueBody "CardWithNote list" nat bool int
| ReviewedBody bool nat nat bool
| ErrorBody string

text \<open>
  The query parameters that \<^verbatim>\<open>GET\<close> reads; \<^verbatim>\<open>searchParams.get\<close> gives a
  string or \<^verbatim>\<open>null\<close>.
\<close>

record query =
  q_all :: "string option"
  q_deckId :: "string option"
  q_listDecks :: "string option"

text \<open>
  \<^verbatim>\<open>GET\<close>. The library function \<^verbatim>\<open>parseInt(s, 10)\<close> is a parameter (\<open>None\<close>
  for \<^verbatim>\<open>NaN\<close>). \<^verbatim>\<open>if (deckId)\<close> holds for a string that is not empty. The
  \<^verbatim>\<open>catch\<close> clause answers a throwing database call, and no call of this
  embedding throws.
\<close>

definition GET :: "(string \<Rightarrow> int option) \<Rightarrow> world \<Rightarrow> query \<Rightarrow> (response \<times> nat) \<times> world" where
  "GET parseInt10 w q =
     (let includeAll = (q_all q = Some ''true'');
          deckId = q_deckId q;
          listDecks = (q_listDecks q = Some ''true'')
      in if listDecks then
           (let (decks, w1) = getDecksWithDueCounts w
            in ((DecksBody decks URGENT_DECK_ID, 200), w1))
         else if deckId \<noteq> None \<and> deckId \<noteq> Some [] then
           (let (cards, w1) = getReviewQueueByDeck w (parseInt10 (the deckId));
                (urgentCount, w2) = getUrgentCount w1
            in ((QueueBody cards urgentCount False URGENT_DECK_ID, 200), w2))
         else
           (let (cards, w1) = getReviewQueue w (\<not> includeAll);
                (urgentCount, w2) = getUrgentCount w1;
                isBlocking = (urgentCount > 0)
            in ((QueueBody cards urgentCount isBlocking URGENT_DECK_ID, 200), w2)))"

text \<open>
  The body of a \<^verbatim>\<open>POST\<close>, read as \<^verbatim>\<open>{ cardId: number; action: ReviewAction }\<close>: a
  field is \<open>None\<close> when the JSON object has no such member (or has \<^verbatim>\<open>null\<close>).
\<close>

record body =
  b_cardId :: "int option"
  b_action :: "string option"

text \<open>
  \<^verbatim>\<open>POST\<close>. Its argument is what \<^verbatim>\<open>await request.json()\<close> and the destructuring
  of its result give: the two fields, or the exception of a body that is not JSON or not
  an object, which the \<^verbatim>\<open>catch\<close> clause answers.
  \<^verbatim>\<open>!cardId\<close> holds for a missing id and for 0, \<^verbatim>\<open>!action\<close> for a missing action
  and for the empty string.
\<close>

definition POST :: "world \<Rightarrow> error + body \<Rightarrow> (response \<times> nat) \<times> world" where
  "POST w request_json =
     (case request_json of
        Inl e \<Rightarrow> ((ErrorBody ''Failed to update card schedule'', 500), w)
      | Inr b \<Rightarrow>
          if b_cardId b = None \<or> b_cardId b = Some 0 \<or> b_action b = None \<or> b_action b = Some []
          then ((ErrorBody ''Missing cardId or action'', 400), w)
          else if the (b_action b) \<notin> set [''repeat'', ''soon'', ''later'', ''complete'']
          then ((ErrorBody ''Invalid action'', 400), w)
          else
            (case updateCardSchedule w (the (b_cardId b)) (the (b_action b)) of
               Inl e \<Rightarrow> ((ErrorBody ''Failed to update card schedule'', 500), w)
             | Inr w1 \<Rightarrow>
                 (let (cards, w2) = getReviewQueue w1 False;
                      (urgentCount, w3) = getUrgentCount w2
                  in ((ReviewedBody True (length cards) urgentCount (urgentCount > 0), 200), w3))))"

subsection \<open>Notions used in the statements\<close>

text \<open>
  The values that the first two statements of a queue function bind:
  \<^verbatim>\<open>todayDayNum = getTodayDayNumber()\<close>, then
  \<^verbatim>\<open>nowTimestamp = Math.floor(Date.now() / 1000)\<close>, and the state after them.
\<close>

definition queue_clock :: "world \<Rightarrow> (int \<times> int) \<times> world" where
  "queue_clock w =
     (let (todayDayNum, w1) = getTodayDayNumber w;
          (nowTimestamp, w2) = unix_now w1
      in ((todayDayNum, nowTimestamp), w2))"

text \<open>The four literals of \<^verbatim>\<open>ReviewAction\<close>.\<close>

definition review_actions :: "string set" where
  "review_actions = {''repeat'', ''soon'', ''later'', ''complete''}"

definition queue_day :: "world \<Rightarrow> int" where
  "queue_day w = fst (fst (queue_clock w))"

definition queue_now :: "world \<Rightarrow> int" where
  "queue_now w = snd (fst (queue_clock w))"

text \<open>
  The result of the first query of \<^verbatim>\<open>getReviewQueue\<close> (the due cards of the urgent
  deck) and of its second query (the due cards of all decks), for a call in state \<open>w\<close>.
\<close>

definition blocking_set :: "world \<Rightarrow> CardWithNote list" where
  "blocking_set w = select_due_in_deck w URGENT_DECK_ID (queue_day w) (queue_now w)"

definition eligible_set :: "world \<Rightarrow> CardWithNote list" where
  "eligible_set w = select_due w (queue_day w) (queue_now w)"

text \<open>
  The values that the first two statements of \<^verbatim>\<open>updateCardSchedule\<close> bind:
  \<^verbatim>\<open>now\<close>, then \<^verbatim>\<open>todayDayNum\<close>.
\<close>

definition update_now :: "world \<Rightarrow> int" where
  "update_now w = fst (unix_now w)"

definition update_day :: "world \<Rightarrow> int" where
  "update_day w = fst (getTodayDayNumber (snd (unix_now w)))"

text \<open>
  The table of section 4.1 of the specification, in its words: for an action, the new
  \<open>queueStatus\<close>, \<open>state\<close>, \<open>dueValue\<close>, \<open>interval\<close> and \<open>repetitionCount\<close> of
  an item.
\<close>

definition table_4_1 :: "string \<Rightarrow> int \<Rightarrow> int \<Rightarrow> Card \<Rightarrow> int \<times> int \<times> int \<times> int \<times> int" where
  "table_4_1 action now dayNumber c =
     (if action = ''repeat'' then (1, 1, now, 0, c_reps c + 1)
      else if action = ''soon'' then (2, 2, dayNumber + 1, 1, c_reps c + 1)
      else if action = ''later'' then (2, 2, dayNumber + 7, 7, c_reps c + 1)
      else (- 1, c_type c, c_due c, c_ivl c, c_reps c + 1))"

definition scheduling :: "Card \<Rightarrow> int \<times> int \<times> int \<times> int \<times> int" where
  "scheduling c = (c_queue c, c_type c, c_due c, c_ivl c, c_reps c)"

subsection \<open>A small collection\<close>

text \<open>
  Four cards of one note in two decks, on day 100 of a collection created at second
  86400: a review card of the urgent deck due on day 100, a new card and a review card
  due on day 101 in deck 7, and a suspended card of the urgent deck. Every reading of
  the clock is the first millisecond of day 100 and every random number is one half.
\<close>

definition demo_card :: "int \<Rightarrow> int \<Rightarrow> int \<Rightarrow> int \<Rightarrow> Card" where
  "demo_card i d q due =
     \<lparr>c_id = i, c_nid = 10, c_did = d, c_ord = 0, c_mod = 0, c_type = 2, c_queue = q,
      c_due = due, c_ivl = 3, c_factor = 2500, c_reps = 3, c_lapses = 0\<rparr>"

definition demo_world :: world where
  "demo_world =
     \<lparr>clock = (\<lambda>k. 8726400000), ticks = 0,
      random = \<lparr>source = (\<lambda>k. 1 / 2), drawn = 0\<rparr>,
      col_crt = Some 86400,
      cards_table = [demo_card 1 URGENT_DECK_ID 2 100, demo_card 2 7 0 0,
                     demo_card 3 7 2 101, demo_card 4 URGENT_DECK_ID (- 1) 0],
      notes_table = [\<lparr>n_id = 10, n_flds = ''front'', n_tags = ''tag''\<rparr>],
      decks_table = [\<lparr>d_id = URGENT_DECK_ID, d_name = ''Urgent''\<rparr>,
                     \<lparr>d_id = 7, d_name = ''Other''\<rparr>]\<rparr>"

text \<open>The row of the join for such a card in a deck of the given name.\<close>

definition demo_row :: "int \<Rightarrow> int \<Rightarrow> int \<Rightarrow> int \<Rightarrow> string \<Rightarrow> CardWithNote" where
  "demo_row i d q due name =
     \<lparr>c_id = i, c_nid = 10, c_did = d, c_ord = 0, c_mod = 0, c_type = 2, c_queue = q,
      c_due = due, c_ivl = 3, c_factor = 2500, c_reps = 3, c_lapses = 0,
      note_flds = ''front'', note_tags = ''tag'', deck_name = name\<rparr>"

text \<open>
  The same collection with a clock that reads the last second of day 99 first and the
  first second of day 100 on every later reading.
\<close>

definition midnight_world :: world where
  "midnight_world = demo_world\<lparr>clock := (\<lambda>k. if k = 0 then 8726399000 else 8726400000)\<rparr>"

text \<open>The same collection after card 1 was completed: no urgent card is due.\<close>

definition released_world :: world where
  "released_world = demo_world\<lparr>cards_table :=
     [demo_card 1 URGENT_DECK_ID (- 1) 100, demo_card 2 7 0 0,
      demo_card 3 7 2 101, demo_card 4 URGENT_DECK_ID (- 1) 0]\<rparr>"

text \<open>
  A collection in which card 1, a review card due on day 100, was moved to deck 99,
  which the table of decks does not have; card 2 is a new card of deck 7.
\<close>

definition orphan_world :: world where
  "orphan_world = demo_world\<lparr>cards_table := [demo_card 1 99 2 100, demo_card 2 7 0 0]\<rparr>"

section \<open>Properties\<close>

subsection \<open>What the clock functions leave unchanged\<close>

lemma unix_now_frame:
  "unix_now w = (t, w') \<Longrightarrow>
     cards_table w' = cards_table w \<and> notes_table w' = notes_table w \<and>
     decks_table w' = decks_table w \<and> random w' = random w \<and> col_crt w' = col_crt w \<and>
     clock w' = clock w \<and> ticks w' = Suc (ticks w) \<and> t = clock w (ticks w) div 1000"
  by (auto simp: unix_now_def Date_now_def)

lemma getCollectionCreation_frame:
  "getCollectionCreation w = (t, w') \<Longrightarrow>
     cards_table w' = cards_table w \<and> notes_table w' = notes_table w \<and>
     decks_table w' = decks_table w \<and> random w' = random w \<and> col_crt w' = col_crt w \<and>
     clock w' = clock w"
  by (auto simp: getCollectionCreation_def split: option.splits if_splits dest: unix_now_frame)

lemma getTodayDayNumber_frame:
  "getTodayDayNumber w = (t, w') \<Longrightarrow>
     cards_table w' = cards_table w \<and> notes_table w' = notes_table w \<and>
     decks_table w' = decks_table w \<and> random w' = random w \<and> col_crt w' = col_crt w \<and>
     clock w' = clock w"
  by (auto simp: getTodayDayNumber_def split: prod.splits dest!: unix_now_frame getCollectionCreation_frame)

lemma queue_clock_frame:
  "queue_clock w = (p, w') \<Longrightarrow>
     cards_table w' = cards_table w \<and> notes_table w' = notes_table w \<and>
     decks_table w' = decks_table w \<and> random w' = random w \<and> col_crt w' = col_crt w \<and>
     clock w' = clock w"
  by (auto simp: queue_clock_def split: prod.splits dest!: unix_now_frame getTodayDayNumber_frame)

subsection \<open>The condition of the queries and the rule of the specification\<close>

lemma is_due_eligible_spec:
  "c_queue c \<in> {- 1, 0, 1, 2, 3} \<Longrightarrow> is_due d n c = eligible_spec d n c"
  by (auto simp: is_due_def eligible_spec_def)

subsection \<open>The shuffle permutes\<close>

text \<open>The index \<open>j\<close> of a step is at most \<open>i\<close>, so a step swaps two positions of the array.\<close>

lemma random_index_le:
  assumes "0 \<le> r" "r < 1"
  shows "nat \<lfloor>r * real (Suc i)\<rfloor> \<le> i"
proof -
  have "r * real (Suc i) < real (Suc i)" using assms by simp
  then have "\<lfloor>r * real (Suc i)\<rfloor> < int (Suc i)" by (simp add: floor_less_iff)
  then show ?thesis by simp
qed

lemma mset_swap': "i < length xs \<Longrightarrow> j < length xs \<Longrightarrow> mset (swap xs i j) = mset xs"
  unfolding swap_def by (simp add: mset_swap)

lemma length_swap [simp]: "length (swap xs i j) = length xs"
  by (simp add: swap_def)

lemma shuffle_loop_mset:
  "unit_interval g \<Longrightarrow> n < length xs \<Longrightarrow> mset (fst (shuffle_loop n xs g)) = mset xs"
proof (induction n arbitrary: xs g)
  case 0
  then show ?case by simp
next
  case (Suc n)
  let ?r = "source g (drawn g)"
  let ?j = "nat \<lfloor>?r * real (Suc (Suc n))\<rfloor>"
  let ?g = "g\<lparr>drawn := Suc (drawn g)\<rparr>"
  have r: "0 \<le> ?r" "?r < 1" using Suc.prems(1) by (auto simp: unit_interval_def)
  have j: "?j \<le> Suc n" using random_index_le [OF r] .
  have g: "unit_interval ?g" using Suc.prems(1) by (simp add: unit_interval_def)
  have "mset (fst (shuffle_loop n (swap xs (Suc n) ?j) ?g)) = mset (swap xs (Suc n) ?j)"
    using Suc.prems(2) by (intro Suc.IH [OF g]) simp
  also have "\<dots> = mset xs" using j Suc.prems(2) by (intro mset_swap') auto
  finally show ?case by (simp add: Math_random_def)
qed

lemma shuffleArray_mset:
  "unit_interval g \<Longrightarrow> mset (fst (shuffleArray xs g)) = mset xs"
  by (cases xs) (auto simp: shuffleArray_def shuffle_loop_mset)

lemma shuffle_loop_source: "source (snd (shuffle_loop n xs g)) = source g"
  by (induction n arbitrary: xs g) (auto simp: Math_random_def)

lemma shuffle_loop_drawn: "drawn (snd (shuffle_loop n xs g)) = drawn g + n"
  by (induction n arbitrary: xs g) (auto simp: Math_random_def)

lemma shuffled_mset: "unit_interval (random w) \<Longrightarrow> mset (fst (shuffled xs w)) = mset xs"
  using shuffleArray_mset [of "random w" xs] by (cases "shuffleArray xs (random w)") (simp add: shuffled_def)

lemma shuffleArray_source: "source (snd (shuffleArray xs g)) = source g"
  by (simp add: shuffleArray_def shuffle_loop_source)

lemma shuffled_frame:
  assumes "shuffled xs w = (ys, w')"
  shows "cards_table w' = cards_table w \<and> notes_table w' = notes_table w \<and>
     decks_table w' = decks_table w \<and> col_crt w' = col_crt w \<and>
     clock w' = clock w \<and> ticks w' = ticks w \<and> source (random w') = source (random w)"
proof -
  obtain zs g where l: "shuffleArray xs (random w) = (zs, g)"
    by (cases "shuffleArray xs (random w)")
  have "source g = source (random w)"
    using shuffleArray_source [of xs "random w"] by (simp add: l)
  then show ?thesis
    using assms by (auto simp: shuffled_def l)
qed

lemma shuffled_unit_interval:
  "shuffled xs w = (ys, w') \<Longrightarrow> unit_interval (random w) \<Longrightarrow> unit_interval (random w')"
  by (drule shuffled_frame) (simp add: unit_interval_def)

subsection \<open>The queries read the three tables only\<close>

lemma cards_notes_decks_cong:
  assumes "cards_table w' = cards_table w" "notes_table w' = notes_table w"
    "decks_table w' = decks_table w"
  shows "cards_notes_decks w' = cards_notes_decks w"
  unfolding cards_notes_decks_def by (simp only: assms)

lemma select_due_cong:
  assumes "cards_table w' = cards_table w" "notes_table w' = notes_table w"
    "decks_table w' = decks_table w"
  shows "select_due w' d n = select_due w d n"
  unfolding select_due_def by (simp only: cards_notes_decks_cong [OF assms])

lemma select_due_in_deck_cong:
  assumes "cards_table w' = cards_table w" "notes_table w' = notes_table w"
    "decks_table w' = decks_table w"
  shows "select_due_in_deck w' k d n = select_due_in_deck w k d n"
  unfolding select_due_in_deck_def by (simp only: cards_notes_decks_cong [OF assms])

lemma getReviewQueue_unfold:
  assumes "queue_clock w = ((d, n), w2)"
  shows "getReviewQueue w inc =
     (let (su, w3) = shuffled (select_due_in_deck w URGENT_DECK_ID d n) w2
      in if su \<noteq> [] \<and> \<not> inc then (su, w3) else shuffled (select_due w d n) w3)"
proof -
  have w2: "cards_table w2 = cards_table w" "notes_table w2 = notes_table w"
    "decks_table w2 = decks_table w"
    using queue_clock_frame [OF assms] by auto
  obtain su w3 where s: "shuffled (select_due_in_deck w URGENT_DECK_ID d n) w2 = (su, w3)"
    by (cases "shuffled (select_due_in_deck w URGENT_DECK_ID d n) w2")
  have w3: "select_due w3 d n = select_due w d n"
    using shuffled_frame [OF s] w2 by (intro select_due_cong) auto
  have u: "select_due_in_deck w2 URGENT_DECK_ID d n = select_due_in_deck w URGENT_DECK_ID d n"
    using w2 by (intro select_due_in_deck_cong)
  obtain d' w1 where t': "getTodayDayNumber w = (d', w1)"
    by (cases "getTodayDayNumber w")
  obtain n' w2' where n': "unix_now w1 = (n', w2')"
    by (cases "unix_now w1")
  have e: "d' = d" "n' = n" "w2' = w2"
    using assms by (simp_all add: queue_clock_def t' n')
  have t: "getTodayDayNumber w = (d, w1)" and n: "unix_now w1 = (n, w2)"
    using t' n' e by simp_all
  have "getReviewQueue w inc =
     (if 0 < length su \<and> \<not> inc then (su, w3) else shuffled (select_due w3 d n) w3)"
    unfolding getReviewQueue_def by (simp only: t n u s split_conv Let_def)
  then show ?thesis
    by (simp only: s w3 split_conv Let_def length_greater_0_conv)
qed

subsection \<open>The queue functions shuffle their queries\<close>

lemma queue_clock_eq: "\<exists>w2. queue_clock w = ((queue_day w, queue_now w), w2)"
  by (cases "queue_clock w") (auto simp: queue_day_def queue_now_def)

lemma mset_eq_Nil_iff: "mset xs = mset ys \<Longrightarrow> xs = [] \<longleftrightarrow> ys = []"
  by (metis mset_zero_iff)

lemma getReviewQueue_mset:
  assumes "unit_interval (random w)"
  shows "mset (fst (getReviewQueue w inc)) =
           mset (if blocking_set w \<noteq> [] \<and> \<not> inc then blocking_set w else eligible_set w)"
proof -
  obtain w2 where c: "queue_clock w = ((queue_day w, queue_now w), w2)"
    using queue_clock_eq by blast
  have r2: "random w2 = random w"
    using queue_clock_frame [OF c] by simp
  obtain su w3 where s: "shuffled (blocking_set w) w2 = (su, w3)"
    by (cases "shuffled (blocking_set w) w2")
  have u2: "unit_interval (random w2)"
    using assms by (simp only: r2)
  have su: "mset su = mset (blocking_set w)"
    using shuffled_mset [OF u2, of "blocking_set w"] by (simp add: s)
  have u3: "unit_interval (random w3)"
    using shuffled_unit_interval [OF s u2] .
  have e: "su = [] \<longleftrightarrow> blocking_set w = []"
    using su by (rule mset_eq_Nil_iff)
  have g: "getReviewQueue w inc =
      (if su \<noteq> [] \<and> \<not> inc then (su, w3) else shuffled (eligible_set w) w3)"
    using getReviewQueue_unfold [OF c, of inc] s
    by (simp add: blocking_set_def eligible_set_def)
  show ?thesis
  proof (cases "blocking_set w \<noteq> [] \<and> \<not> inc")
    case True
    then show ?thesis using g e su by simp
  next
    case False
    then have "getReviewQueue w inc = shuffled (eligible_set w) w3"
      using g e by auto
    then show ?thesis using False shuffled_mset [OF u3, of "eligible_set w"] by auto
  qed
qed

lemma getReviewQueueByDeck_mset:
  assumes "unit_interval (random w)"
  shows "mset (fst (getReviewQueueByDeck w deckId)) =
           mset (case deckId of Some d \<Rightarrow> select_due_in_deck w d (queue_day w) (queue_now w)
                 | None \<Rightarrow> [])"
proof -
  obtain w2 where c: "queue_clock w = ((queue_day w, queue_now w), w2)"
    using queue_clock_eq by blast
  have f: "cards_table w2 = cards_table w" "notes_table w2 = notes_table w"
    "decks_table w2 = decks_table w" and r2: "random w2 = random w"
    using queue_clock_frame [OF c] by simp_all
  have u2: "unit_interval (random w2)"
    using assms by (simp only: r2)
  obtain d' w1 where t: "getTodayDayNumber w = (d', w1)"
    by (cases "getTodayDayNumber w")
  obtain n' w2' where n: "unix_now w1 = (n', w2')"
    by (cases "unix_now w1")
  have e: "d' = queue_day w" "n' = queue_now w" "w2' = w2"
    using c by (simp_all add: queue_clock_def t n)
  have "getReviewQueueByDeck w deckId =
      shuffled (case deckId of Some d \<Rightarrow> select_due_in_deck w2 d (queue_day w) (queue_now w)
                | None \<Rightarrow> []) w2"
    by (simp add: getReviewQueueByDeck_def t n e)
  also have "(case deckId of Some d \<Rightarrow> select_due_in_deck w2 d (queue_day w) (queue_now w)
                | None \<Rightarrow> []) =
             (case deckId of Some d \<Rightarrow> select_due_in_deck w d (queue_day w) (queue_now w)
                | None \<Rightarrow> [])"
    by (cases deckId) (simp_all add: select_due_in_deck_cong [OF f])
  finally show ?thesis
    using shuffled_mset [OF u2] by simp
qed

lemma blocking_set_deck: "r \<in> set (blocking_set w) \<Longrightarrow> c_did r = URGENT_DECK_ID"
  by (simp add: blocking_set_def select_due_in_deck_def)

lemma mset_single_list: "mset xs = {#x#} \<Longrightarrow> xs = [x]"
  by (cases xs) (auto simp: add_eq_conv_diff split: if_splits)

subsection \<open>The update of a card\<close>

lemma update_cards_tables:
  "cards_table (update_cards w cardId f) =
     map (\<lambda>c. if c_id c = cardId then f c else c) (cards_table w)"
  "notes_table (update_cards w cardId f) = notes_table w"
  "decks_table (update_cards w cardId f) = decks_table w"
  by (simp_all add: update_cards_def)

lemma update_clock:
  obtains w2 where
    "unix_now w = (update_now w, snd (unix_now w))"
    "getTodayDayNumber (snd (unix_now w)) = (update_day w, w2)"
    "cards_table w2 = cards_table w" "notes_table w2 = notes_table w"
    "decks_table w2 = decks_table w"
proof -
  obtain now w1 where n: "unix_now w = (now, w1)"
    by (cases "unix_now w")
  obtain day w2 where t: "getTodayDayNumber w1 = (day, w2)"
    by (cases "getTodayDayNumber w1")
  have f1: "cards_table w1 = cards_table w" "notes_table w1 = notes_table w"
    "decks_table w1 = decks_table w"
    using unix_now_frame [OF n] by simp_all
  have f2: "cards_table w2 = cards_table w1" "notes_table w2 = notes_table w1"
    "decks_table w2 = decks_table w1"
    using getTodayDayNumber_frame [OF t] by simp_all
  show thesis
  proof (rule that [of w2])
    show "unix_now w = (update_now w, snd (unix_now w))"
      by (simp add: update_now_def)
    show "getTodayDayNumber (snd (unix_now w)) = (update_day w, w2)"
      by (simp add: update_day_def n t)
    show "cards_table w2 = cards_table w"
      by (simp only: f2 f1)
    show "notes_table w2 = notes_table w"
      by (simp only: f2 f1)
    show "decks_table w2 = decks_table w"
      by (simp only: f2 f1)
  qed
qed

lemma updateCardSchedule_cases:
  obtains w2 where
    "cards_table w2 = cards_table w" "notes_table w2 = notes_table w"
    "decks_table w2 = decks_table w"
    "updateCardSchedule w cardId ''repeat'' = Inr (update_cards w2 cardId
       (\<lambda>c. c\<lparr>c_due := update_now w, c_ivl := 0, c_mod := update_now w,
               c_reps := c_reps c + 1, c_type := 1, c_queue := 1\<rparr>))"
    "updateCardSchedule w cardId ''soon'' = Inr (update_cards w2 cardId
       (\<lambda>c. c\<lparr>c_due := update_day w + 1, c_ivl := 1, c_mod := update_now w,
               c_reps := c_reps c + 1, c_type := 2, c_queue := 2\<rparr>))"
    "updateCardSchedule w cardId ''later'' = Inr (update_cards w2 cardId
       (\<lambda>c. c\<lparr>c_due := update_day w + 7, c_ivl := 7, c_mod := update_now w,
               c_reps := c_reps c + 1, c_type := 2, c_queue := 2\<rparr>))"
    "updateCardSchedule w cardId ''complete'' = Inr (update_cards w2 cardId
       (\<lambda>c. c\<lparr>c_queue := - 1, c_mod := update_now w, c_reps := c_reps c + 1\<rparr>))"
    "\<forall>action. action \<notin> review_actions \<longrightarrow> updateCardSchedule w cardId action = Inr w2"
proof -
  obtain w2 where c:
    "unix_now w = (update_now w, snd (unix_now w))"
    "getTodayDayNumber (snd (unix_now w)) = (update_day w, w2)"
    and f: "cards_table w2 = cards_table w" "notes_table w2 = notes_table w"
    "decks_table w2 = decks_table w"
    by (rule update_clock)
  have u: "updateCardSchedule w cardId action =
     (case (update_now w, snd (unix_now w)) of (now, w1) \<Rightarrow>
        case (update_day w, w2) of (todayDayNum, w2) \<Rightarrow>
      if action = ''repeat'' then
           Inr (update_cards w2 cardId
             (\<lambda>c. c\<lparr>c_due := now, c_ivl := 0, c_mod := now, c_reps := c_reps c + 1,
                     c_type := 1, c_queue := 1\<rparr>))
         else if action = ''soon'' then
           Inr (update_cards w2 cardId
             (\<lambda>c. c\<lparr>c_due := todayDayNum + 1, c_ivl := 1, c_mod := now, c_reps := c_reps c + 1,
                     c_type := 2, c_queue := 2\<rparr>))
         else if action = ''later'' then
           Inr (update_cards w2 cardId
             (\<lambda>c. c\<lparr>c_due := todayDayNum + 7, c_ivl := 7, c_mod := now, c_reps := c_reps c + 1,
                     c_type := 2, c_queue := 2\<rparr>))
         else if action = ''complete'' then
           Inr (update_cards w2 cardId
             (\<lambda>c. c\<lparr>c_queue := - 1, c_mod := now, c_reps := c_reps c + 1\<rparr>))
         else Inr w2)" for action
    unfolding updateCardSchedule_def Let_def
    by (subst c(1), subst (2) c(1), simp only: split_conv c(2))
  show thesis
  proof (rule that [of w2])
    show "\<forall>action. action \<notin> review_actions \<longrightarrow> updateCardSchedule w cardId action = Inr w2"
      by (simp add: u review_actions_def)
  qed (simp_all add: f u)
qed

lemma join_row_fields:
  "c_id (join_row c n d) = c_id c" "c_did (join_row c n d) = c_did c"
  "c_queue (join_row c n d) = c_queue c" "c_due (join_row c n d) = c_due c"
  by (simp_all add: join_row_def Card.defs)

lemma cards_notes_decks_row:
  "r \<in> set (cards_notes_decks w) \<Longrightarrow>
     \<exists>c \<in> set (cards_table w). c_id r = c_id c \<and> c_queue r = c_queue c \<and> c_due r = c_due c"
  by (auto simp: cards_notes_decks_def join_row_fields)

lemma update_cards_no_match:
  assumes "\<forall>c \<in> set (cards_table w2). c_id c \<noteq> cardId"
  shows "cards_table (update_cards w2 cardId f) = cards_table w2"
  using assms by (simp add: update_cards_tables map_idI)

lemma update_cards_member:
  "c \<in> set (cards_table (update_cards w cardId f)) \<Longrightarrow>
     (\<exists>x \<in> set (cards_table w). c_id x = cardId \<and> c = f x) \<or>
     (c \<in> set (cards_table w) \<and> c_id c \<noteq> cardId)"
  by (auto simp: update_cards_tables)

lemma updateCardSchedule_repeat:
  "\<exists>w2. cards_table w2 = cards_table w \<and>
     updateCardSchedule w cardId ''repeat'' = Inr (update_cards w2 cardId
       (\<lambda>c. c\<lparr>c_due := update_now w, c_ivl := 0, c_mod := update_now w,
               c_reps := c_reps c + 1, c_type := 1, c_queue := 1\<rparr>))"
proof -
  obtain w2 where "cards_table w2 = cards_table w" "notes_table w2 = notes_table w"
    "updateCardSchedule w cardId ''repeat'' = Inr (update_cards w2 cardId
       (\<lambda>c. c\<lparr>c_due := update_now w, c_ivl := 0, c_mod := update_now w,
               c_reps := c_reps c + 1, c_type := 1, c_queue := 1\<rparr>))"
    by (rule updateCardSchedule_cases [of w cardId])
  then show ?thesis by blast
qed

subsection \<open>The loop on the store\<close>

lemma array_swap:
  "result < length h \<Longrightarrow>
     array_set (array_set h result i (array_get h result j)) result j (array_get h result i) =
       h[result := swap (h ! result) i j]"
  by (simp add: array_set_def array_get_def swap_def)

lemma shuffle_loop_ref_eq:
  "result < length h \<Longrightarrow>
     shuffle_loop_ref n result h g =
       (h[result := fst (shuffle_loop n (h ! result) g)], snd (shuffle_loop n (h ! result) g))"
proof (induction n arbitrary: h g)
  case 0
  then show ?case by simp
next
  case (Suc n)
  let ?j = "nat \<lfloor>source g (drawn g) * real (Suc (Suc n))\<rfloor>"
  let ?g = "g\<lparr>drawn := Suc (drawn g)\<rparr>"
  let ?h = "h[result := swap (h ! result) (Suc n) ?j]"
  have l: "result < length ?h"
    using Suc.prems by simp
  have "shuffle_loop_ref (Suc n) result h g = shuffle_loop_ref n result ?h ?g"
    by (simp add: Math_random_def array_swap [OF Suc.prems] Let_def)
  also have "\<dots> = (?h[result := fst (shuffle_loop n (?h ! result) ?g)],
                     snd (shuffle_loop n (?h ! result) ?g))"
    using l by (rule Suc.IH)
  also have "?h ! result = swap (h ! result) (Suc n) ?j"
    using Suc.prems by simp
  finally show ?case
    by (simp add: Math_random_def Let_def)
qed

subsection \<open>The clock readings of a queue function\<close>

lemma queue_clock_readings:
  assumes "col_crt w = Some creationTime" and "creationTime \<noteq> 0"
  shows "queue_day w = (clock w (ticks w) div 1000 - creationTime) div 86400"
    and "queue_now w = clock w (Suc (ticks w)) div 1000"
  using assms
  by (simp_all add: queue_day_def queue_now_def queue_clock_def getTodayDayNumber_def
      getCollectionCreation_def unix_now_def Date_now_def)

lemma getReviewQueue_is_due:
  assumes "unit_interval (random w)" and "r \<in> set (fst (getReviewQueue w inc))"
  shows "is_due (queue_day w) (queue_now w) r"
proof -
  have "set (fst (getReviewQueue w inc)) =
          set (if blocking_set w \<noteq> [] \<and> \<not> inc then blocking_set w else eligible_set w)"
    using getReviewQueue_mset [OF assms(1), of inc] by (rule mset_eq_setD)
  then have "r \<in> set (blocking_set w) \<or> r \<in> set (eligible_set w)"
    using assms(2) by (auto split: if_splits)
  then show ?thesis
    by (auto simp: blocking_set_def eligible_set_def select_due_def select_due_in_deck_def)
qed

subsection \<open>Rows of the join\<close>

lemma join_row_in_join:
  assumes "c \<in> set (cards_table w)" and "n \<in> set (notes_table w)" and "c_nid c = n_id n"
    and "d \<in> set (decks_table w)" and "c_did c = d_id d"
  shows "join_row c n d \<in> set (cards_notes_decks w)"
  unfolding cards_notes_decks_def using assms by auto

lemma join_row_is_due: "is_due t s (join_row c n d) = is_due t s c"
  by (simp add: is_due_def join_row_fields)

lemma join_row_eligible_spec: "eligible_spec t s (join_row c n d) = eligible_spec t s c"
  by (simp add: eligible_spec_def join_row_fields)

subsection \<open>The results of the queue functions are rows of the join\<close>

lemma truncate_join_row: "Card.truncate (join_row c n d) = c"
  by (simp add: join_row_def Card.defs)

lemma cards_notes_decks_rowD:
  assumes "r \<in> set (cards_notes_decks w)"
  shows "\<exists>c \<in> set (cards_table w). \<exists>n \<in> set (notes_table w). \<exists>d \<in> set (decks_table w).
           c_nid c = n_id n \<and> c_did c = d_id d \<and> r = join_row c n d"
  using assms unfolding cards_notes_decks_def by auto

lemma orphan_not_in_join:
  assumes "(\<forall>n \<in> set (notes_table w). n_id n \<noteq> c_nid c) \<or>
           (\<forall>d \<in> set (decks_table w). d_id d \<noteq> c_did c)"
    and "r \<in> set (cards_notes_decks w)"
  shows "Card.truncate r \<noteq> c"
proof
  assume t: "Card.truncate r = c"
  obtain c' n d where m: "n \<in> set (notes_table w)" "d \<in> set (decks_table w)"
    and k: "c_nid c' = n_id n" "c_did c' = d_id d" and r: "r = join_row c' n d"
    using cards_notes_decks_rowD [OF assms(2)] by blast
  have "c' = c"
    using t by (simp add: r truncate_join_row)
  then have "c_nid c = n_id n" "c_did c = d_id d"
    using k by simp_all
  then show False
    using assms(1) m by metis
qed

lemma getReviewQueue_set:
  assumes "unit_interval (random w)"
  shows "set (fst (getReviewQueue w inc)) =
           set (if blocking_set w \<noteq> [] \<and> \<not> inc then blocking_set w else eligible_set w)"
  using getReviewQueue_mset [OF assms, of inc] by (rule mset_eq_setD)

lemma getReviewQueueByDeck_set:
  assumes "unit_interval (random w)"
  shows "set (fst (getReviewQueueByDeck w deckId)) =
           set (case deckId of
                  Some d \<Rightarrow> select_due_in_deck w d (queue_day w) (queue_now w)
                | None \<Rightarrow> [])"
  using getReviewQueueByDeck_mset [OF assms, of deckId] by (rule mset_eq_setD)

lemma queue_results_in_join:
  assumes "unit_interval (random w)"
  shows "set (fst (getReviewQueue w inc)) \<subseteq> set (cards_notes_decks w)"
    and "set (fst (getReviewQueueByDeck w deckId)) \<subseteq> set (cards_notes_decks w)"
proof -
  show "set (fst (getReviewQueue w inc)) \<subseteq> set (cards_notes_decks w)"
    unfolding getReviewQueue_set [OF assms]
    by (auto simp: blocking_set_def eligible_set_def select_due_def select_due_in_deck_def)
  show "set (fst (getReviewQueueByDeck w deckId)) \<subseteq> set (cards_notes_decks w)"
    unfolding getReviewQueueByDeck_set [OF assms]
    by (cases deckId) (auto simp: select_due_in_deck_def)
qed

subsection \<open>The small collection, evaluated\<close>

lemma demo_unit_interval:
  "unit_interval (random demo_world)" "unit_interval (random released_world)"
  "unit_interval (random midnight_world)"
  by (simp_all add: unit_interval_def demo_world_def released_world_def midnight_world_def)

lemma demo_queue_clock:
  "queue_clock demo_world = ((100, 8726400), demo_world\<lparr>ticks := 2\<rparr>)"
  by (simp add: queue_clock_def getTodayDayNumber_def getCollectionCreation_def unix_now_def
      Date_now_def demo_world_def)

lemma released_queue_clock:
  "queue_clock released_world = ((100, 8726400), released_world\<lparr>ticks := 2\<rparr>)"
  by (simp add: queue_clock_def getTodayDayNumber_def getCollectionCreation_def unix_now_def
      Date_now_def demo_world_def released_world_def)

lemma midnight_queue_clock:
  "queue_clock midnight_world = ((99, 8726400), midnight_world\<lparr>ticks := 2\<rparr>)"
  by (simp add: queue_clock_def getTodayDayNumber_def getCollectionCreation_def unix_now_def
      Date_now_def demo_world_def midnight_world_def)

lemma demo_day_now:
  "queue_day demo_world = 100" "queue_now demo_world = 8726400"
  "queue_day released_world = 100" "queue_now released_world = 8726400"
  "queue_day midnight_world = 99" "queue_now midnight_world = 8726400"
  by (simp_all add: queue_day_def queue_now_def demo_queue_clock released_queue_clock
      midnight_queue_clock)

lemma demo_join:
  "cards_notes_decks demo_world =
     [demo_row 1 URGENT_DECK_ID 2 100 ''Urgent'', demo_row 2 7 0 0 ''Other'',
      demo_row 3 7 2 101 ''Other'', demo_row 4 URGENT_DECK_ID (- 1) 0 ''Urgent'']"
  by (simp add: cards_notes_decks_def demo_world_def demo_card_def demo_row_def join_row_def
      URGENT_DECK_ID_def Card.extend_def CardWithNote.fields_def)

lemma midnight_join:
  "cards_notes_decks midnight_world = cards_notes_decks demo_world"
  by (simp add: cards_notes_decks_def midnight_world_def)

lemma released_join:
  "cards_notes_decks released_world =
     [demo_row 1 URGENT_DECK_ID (- 1) 100 ''Urgent'', demo_row 2 7 0 0 ''Other'',
      demo_row 3 7 2 101 ''Other'', demo_row 4 URGENT_DECK_ID (- 1) 0 ''Urgent'']"
  by (simp add: cards_notes_decks_def demo_world_def released_world_def demo_card_def
      demo_row_def join_row_def URGENT_DECK_ID_def Card.extend_def CardWithNote.fields_def)

lemma demo_sets:
  "blocking_set demo_world = [demo_row 1 URGENT_DECK_ID 2 100 ''Urgent'']"
  "eligible_set demo_world =
     [demo_row 1 URGENT_DECK_ID 2 100 ''Urgent'', demo_row 2 7 0 0 ''Other'']"
  by (simp_all add: blocking_set_def eligible_set_def select_due_in_deck_def select_due_def
      demo_day_now demo_join is_due_def demo_row_def URGENT_DECK_ID_def)

lemma released_sets:
  "blocking_set released_world = []"
  "eligible_set released_world = [demo_row 2 7 0 0 ''Other'']"
  by (simp_all add: blocking_set_def eligible_set_def select_due_in_deck_def select_due_def
      demo_day_now released_join is_due_def demo_row_def URGENT_DECK_ID_def)

lemma midnight_sets:
  "blocking_set midnight_world = []"
  "eligible_set midnight_world = [demo_row 2 7 0 0 ''Other'']"
  by (simp_all add: blocking_set_def eligible_set_def select_due_in_deck_def select_due_def
      demo_day_now midnight_join demo_join is_due_def demo_row_def URGENT_DECK_ID_def)

lemma demo_update_clock:
  "update_now demo_world = 8726400" "update_day demo_world = 100"
  by (simp_all add: update_now_def update_day_def getTodayDayNumber_def
      getCollectionCreation_def unix_now_def Date_now_def demo_world_def)

lemma demo_later:
  "map_sum id cards_table (updateCardSchedule demo_world 1 ''later'') =
     Inr [(demo_card 1 URGENT_DECK_ID 2 107)\<lparr>c_ivl := 7, c_mod := 8726400, c_reps := 4\<rparr>,
          demo_card 2 7 0 0, demo_card 3 7 2 101, demo_card 4 URGENT_DECK_ID (- 1) 0]"
  by (simp add: updateCardSchedule_def update_cards_def getTodayDayNumber_def
      getCollectionCreation_def unix_now_def Date_now_def demo_world_def demo_card_def)

lemma demo_later_cards:
  "cards_table (projr (updateCardSchedule demo_world 1 ''later'')) =
     [(demo_card 1 URGENT_DECK_ID 2 107)\<lparr>c_ivl := 7, c_mod := 8726400, c_reps := 4\<rparr>,
      demo_card 2 7 0 0, demo_card 3 7 2 101, demo_card 4 URGENT_DECK_ID (- 1) 0]"
  by (simp add: updateCardSchedule_def update_cards_def getTodayDayNumber_def
      getCollectionCreation_def unix_now_def Date_now_def demo_world_def demo_card_def)

lemma demo_repeat_join:
  "cards_notes_decks (projr (updateCardSchedule demo_world 3 ''repeat'')) =
     [demo_row 1 URGENT_DECK_ID 2 100 ''Urgent'', demo_row 2 7 0 0 ''Other'',
      (demo_row 3 7 1 8726400 ''Other'')\<lparr>c_ivl := 0, c_mod := 8726400, c_reps := 4, c_type := 1\<rparr>,
      demo_row 4 URGENT_DECK_ID (- 1) 0 ''Urgent'']"
  by (simp add: updateCardSchedule_def update_cards_def getTodayDayNumber_def
      getCollectionCreation_def unix_now_def Date_now_def demo_world_def demo_card_def
      cards_notes_decks_def demo_row_def join_row_def URGENT_DECK_ID_def Card.extend_def
      CardWithNote.fields_def)

lemma demo_unknown_card:
  "updateCardSchedule demo_world 99 action = Inr (demo_world\<lparr>ticks := 2\<rparr>)"
  by (simp add: updateCardSchedule_def update_cards_def getTodayDayNumber_def
      getCollectionCreation_def unix_now_def Date_now_def demo_world_def demo_card_def)

lemma demo_skip:
  "updateCardSchedule demo_world 1 ''skip'' = Inr (demo_world\<lparr>ticks := 2\<rparr>)"
  by (simp add: updateCardSchedule_def update_cards_def getTodayDayNumber_def
      getCollectionCreation_def unix_now_def Date_now_def demo_world_def demo_card_def)

lemma demo_later_queue:
  "queue_clock (demo_world\<lparr>ticks := 2\<rparr>) = ((100, 8726400), demo_world\<lparr>ticks := 4\<rparr>)"
  by (simp add: queue_clock_def getTodayDayNumber_def getCollectionCreation_def unix_now_def
      Date_now_def demo_world_def)

lemma demo_post_unknown:
  "fst (POST demo_world (Inr \<lparr>b_cardId = Some 99, b_action = Some ''soon''\<rparr>)) =
     (ReviewedBody True 1 1 True, 200)"
  "fst (POST demo_world (Inr \<lparr>b_cardId = Some 99, b_action = Some ''complete''\<rparr>)) =
     (ReviewedBody True 1 1 True, 200)"
   apply (simp_all add: POST_def demo_unknown_card)
   apply (simp_all add: getReviewQueue_def getUrgentCount_def
      getTodayDayNumber_def getCollectionCreation_def unix_now_def Date_now_def demo_world_def
      demo_card_def select_due_in_deck_def select_due_def cards_notes_decks_def join_row_def
      Card.extend_def CardWithNote.fields_def is_due_def URGENT_DECK_ID_def shuffled_def
      shuffleArray_def Math_random_def swap_def)
  done

lemma orphan_unit_interval: "unit_interval (random orphan_world)"
  by (simp add: unit_interval_def orphan_world_def demo_world_def)

lemma orphan_day_now: "queue_day orphan_world = 100" "queue_now orphan_world = 8726400"
  by (simp_all add: queue_day_def queue_now_def queue_clock_def getTodayDayNumber_def
      getCollectionCreation_def unix_now_def Date_now_def demo_world_def orphan_world_def)

lemma orphan_join: "cards_notes_decks orphan_world = [demo_row 2 7 0 0 ''Other'']"
  by (simp add: cards_notes_decks_def demo_world_def orphan_world_def demo_card_def
      demo_row_def join_row_def URGENT_DECK_ID_def Card.extend_def CardWithNote.fields_def)

lemma orphan_sets:
  "blocking_set orphan_world = []"
  "eligible_set orphan_world = [demo_row 2 7 0 0 ''Other'']"
  "select_due_in_deck orphan_world 99 100 8726400 = []"
  by (simp_all add: blocking_set_def eligible_set_def select_due_in_deck_def select_due_def
      orphan_day_now orphan_join is_due_def demo_row_def URGENT_DECK_ID_def)

lemma orphan_queues:
  "fst (getReviewQueue orphan_world True) = [demo_row 2 7 0 0 ''Other'']"
  "fst (getReviewQueue orphan_world False) = [demo_row 2 7 0 0 ''Other'']"
  "fst (getReviewQueueByDeck orphan_world (Some 99)) = []"
proof -
  have "mset (fst (getReviewQueue orphan_world True)) = {#demo_row 2 7 0 0 ''Other''#}"
    using getReviewQueue_mset [OF orphan_unit_interval, of True] by (simp add: orphan_sets)
  then show "fst (getReviewQueue orphan_world True) = [demo_row 2 7 0 0 ''Other'']"
    by (rule mset_single_list)
  have "mset (fst (getReviewQueue orphan_world False)) = {#demo_row 2 7 0 0 ''Other''#}"
    using getReviewQueue_mset [OF orphan_unit_interval, of False] by (simp add: orphan_sets)
  then show "fst (getReviewQueue orphan_world False) = [demo_row 2 7 0 0 ''Other'']"
    by (rule mset_single_list)
  show "fst (getReviewQueueByDeck orphan_world (Some 99)) = []"
    using getReviewQueueByDeck_mset [OF orphan_unit_interval, of "Some 99"]
    by (simp add: orphan_sets orphan_day_now)
qed

subsection \<open>C1: which cards the queue functions return\<close>

text \<open>
  Claim C1 says, for every item with a \<open>queue\<close> among \<open>-1, 0, 1, 2, 3\<close>, that the
  queue functions include it if and only if it is eligible. The queries select from
  \<^verbatim>\<open>cards JOIN notes JOIN decks\<close>, so a card without its note or its deck is in no
  result, eligible or not; \<^verbatim>\<open>moveCardToDeck\<close> and \<^verbatim>\<open>createCard\<close> store the deck id
  and the note id they are given. Here card 1 is a review card due today in deck 99,
  which does not exist: it is eligible, and no queue function returns it.
\<close>

theorem C1_every_item_counterexample:
  "demo_card 1 99 2 100 \<in> set (cards_table orphan_world) \<and>
   c_queue (demo_card 1 99 2 100) \<in> {- 1, 0, 1, 2, 3} \<and>
   eligible_spec (queue_day orphan_world) (queue_now orphan_world) (demo_card 1 99 2 100) \<and>
   map c_id (cards_table orphan_world) = [1, 2] \<and>
   map c_id (fst (getReviewQueue orphan_world True)) = [2] \<and>
   map c_id (fst (getReviewQueue orphan_world False)) = [2] \<and>
   fst (getReviewQueueByDeck orphan_world (Some 99)) = []"
proof -
  have "demo_card 1 99 2 100 \<in> set (cards_table orphan_world)"
    "map c_id (cards_table orphan_world) = [1, 2]"
    by (simp_all add: orphan_world_def demo_world_def demo_card_def)
  moreover have "c_queue (demo_card 1 99 2 100) \<in> {- 1, 0, 1, 2, 3}"
    "eligible_spec (queue_day orphan_world) (queue_now orphan_world) (demo_card 1 99 2 100)"
    by (simp_all add: eligible_spec_def orphan_day_now demo_card_def)
  ultimately show ?thesis
    by (simp add: orphan_queues) (simp add: demo_row_def)
qed

text \<open>
  Claim C1, amended. For a card whose \<open>queue\<close> is one of \<open>-1, 0, 1, 2, 3\<close>, with random
  numbers in the unit interval, and with \<open>dayNumber\<close> and \<open>now\<close> as the call computes
  them: when the card has its note and its deck, its row is in the result of
  \<^verbatim>\<open>getReviewQueue(true)\<close> if and only if the card is eligible in the words of the
  specification (not suspended, and review with \<open>due \<le> dayNumber\<close>, or learning or
  relearning with \<open>due \<le> now\<close>, or new); in the result of \<^verbatim>\<open>getReviewQueue(false)\<close> if
  and only if it is eligible and, when urgent cards are due, of the urgent deck; in the
  result of \<^verbatim>\<open>getReviewQueueByDeck\<close> if and only if it is of that deck and eligible; and
  the two queries select it under the same conditions for every \<open>dayNumber\<close> and
  \<open>now\<close>. A card whose note or whose deck is missing is in no result of these
  functions. A review card with \<open>due = dayNumber\<close> passes the condition of the queries
  and one with \<open>due = dayNumber + 1\<close> does not.
\<close>

theorem C1_eligibility:
  assumes "unit_interval (random w)" and "c \<in> set (cards_table w)"
    and "c_queue c \<in> {- 1, 0, 1, 2, 3}"
  shows "(n \<in> set (notes_table w) \<and> c_nid c = n_id n \<and>
          d \<in> set (decks_table w) \<and> c_did c = d_id d \<longrightarrow>
            (join_row c n d \<in> set (fst (getReviewQueue w True)) \<longleftrightarrow>
               eligible_spec (queue_day w) (queue_now w) c) \<and>
            (join_row c n d \<in> set (fst (getReviewQueue w False)) \<longleftrightarrow>
               eligible_spec (queue_day w) (queue_now w) c \<and>
               (blocking_set w \<noteq> [] \<longrightarrow> c_did c = URGENT_DECK_ID)) \<and>
            (join_row c n d \<in> set (fst (getReviewQueueByDeck w (Some deckId))) \<longleftrightarrow>
               c_did c = deckId \<and> eligible_spec (queue_day w) (queue_now w) c) \<and>
            (join_row c n d \<in> set (select_due w dayNumber now) \<longleftrightarrow>
               eligible_spec dayNumber now c) \<and>
            (join_row c n d \<in> set (select_due_in_deck w deckId dayNumber now) \<longleftrightarrow>
               c_did c = deckId \<and> eligible_spec dayNumber now c)) \<and>
         ((\<forall>n \<in> set (notes_table w). n_id n \<noteq> c_nid c) \<or>
          (\<forall>d \<in> set (decks_table w). d_id d \<noteq> c_did c) \<longrightarrow>
            (\<forall>r \<in> set (fst (getReviewQueue w includeNonUrgent)) \<union>
                    set (fst (getReviewQueueByDeck w deck)). Card.truncate r \<noteq> c)) \<and>
         is_due dayNumber now (c\<lparr>c_queue := 2, c_due := dayNumber\<rparr>) \<and>
         \<not> is_due dayNumber now (c\<lparr>c_queue := 2, c_due := dayNumber + 1\<rparr>)"
proof -
  have e: "is_due t s (join_row c n d) = eligible_spec t s c" for t s
    using assms(3) by (simp add: join_row_is_due is_due_eligible_spec)
  have a: "(join_row c n d \<in> set (fst (getReviewQueue w True)) \<longleftrightarrow>
               eligible_spec (queue_day w) (queue_now w) c) \<and>
            (join_row c n d \<in> set (fst (getReviewQueue w False)) \<longleftrightarrow>
               eligible_spec (queue_day w) (queue_now w) c \<and>
               (blocking_set w \<noteq> [] \<longrightarrow> c_did c = URGENT_DECK_ID)) \<and>
            (join_row c n d \<in> set (fst (getReviewQueueByDeck w (Some deckId))) \<longleftrightarrow>
               c_did c = deckId \<and> eligible_spec (queue_day w) (queue_now w) c) \<and>
            (join_row c n d \<in> set (select_due w dayNumber now) \<longleftrightarrow>
               eligible_spec dayNumber now c) \<and>
            (join_row c n d \<in> set (select_due_in_deck w deckId dayNumber now) \<longleftrightarrow>
               c_did c = deckId \<and> eligible_spec dayNumber now c)"
    if h: "n \<in> set (notes_table w) \<and> c_nid c = n_id n \<and>
          d \<in> set (decks_table w) \<and> c_did c = d_id d"
  proof -
    have j: "join_row c n d \<in> set (cards_notes_decks w)"
      using assms(2) h by (intro join_row_in_join) auto
    have s1: "join_row c n d \<in> set (select_due w t s) \<longleftrightarrow> eligible_spec t s c" for t s
      using j by (simp add: select_due_def e)
    have s2: "join_row c n d \<in> set (select_due_in_deck w k t s) \<longleftrightarrow>
                c_did c = k \<and> eligible_spec t s c" for k t s
      using j by (simp add: select_due_in_deck_def e join_row_fields)
    have b: "join_row c n d \<in> set (blocking_set w) \<longleftrightarrow>
               c_did c = URGENT_DECK_ID \<and> eligible_spec (queue_day w) (queue_now w) c"
      by (simp add: blocking_set_def s2)
    have l: "join_row c n d \<in> set (eligible_set w) \<longleftrightarrow>
               eligible_spec (queue_day w) (queue_now w) c"
      by (simp add: eligible_set_def s1)
    have q1: "join_row c n d \<in> set (fst (getReviewQueue w True)) \<longleftrightarrow>
               eligible_spec (queue_day w) (queue_now w) c"
      by (simp add: getReviewQueue_set [OF assms(1)] l)
    have q2: "join_row c n d \<in> set (fst (getReviewQueue w False)) \<longleftrightarrow>
               eligible_spec (queue_day w) (queue_now w) c \<and>
               (blocking_set w \<noteq> [] \<longrightarrow> c_did c = URGENT_DECK_ID)"
      by (auto simp: getReviewQueue_set [OF assms(1)] l b)
    have q3: "join_row c n d \<in> set (fst (getReviewQueueByDeck w (Some deckId))) \<longleftrightarrow>
               c_did c = deckId \<and> eligible_spec (queue_day w) (queue_now w) c"
      by (simp add: getReviewQueueByDeck_set [OF assms(1)] s2)
    show ?thesis
      using q1 q2 q3 s1 s2 by blast
  qed
  have o: "\<forall>r \<in> set (fst (getReviewQueue w includeNonUrgent)) \<union>
                    set (fst (getReviewQueueByDeck w deck)). Card.truncate r \<noteq> c"
    if h: "(\<forall>n \<in> set (notes_table w). n_id n \<noteq> c_nid c) \<or>
          (\<forall>d \<in> set (decks_table w). d_id d \<noteq> c_did c)"
    using orphan_not_in_join [OF h] queue_results_in_join [OF assms(1)] by blast
  have "is_due dayNumber now (c\<lparr>c_queue := 2, c_due := dayNumber\<rparr>)"
    by (simp add: is_due_def)
  moreover have "\<not> is_due dayNumber now (c\<lparr>c_queue := 2, c_due := dayNumber + 1\<rparr>)"
    by (simp add: is_due_def)
  ultimately show ?thesis
    using a o by blast
qed

theorem C1_eligibility_witness:
  "unit_interval (random demo_world) \<and>
   demo_card 1 URGENT_DECK_ID 2 100 \<in> set (cards_table demo_world) \<and>
   c_queue (demo_card 1 URGENT_DECK_ID 2 100) \<in> {- 1, 0, 1, 2, 3} \<and>
   \<lparr>n_id = 10, n_flds = ''front'', n_tags = ''tag''\<rparr> \<in> set (notes_table demo_world) \<and>
   c_nid (demo_card 1 URGENT_DECK_ID 2 100) = n_id \<lparr>n_id = 10, n_flds = ''front'', n_tags = ''tag''\<rparr> \<and>
   \<lparr>d_id = URGENT_DECK_ID, d_name = ''Urgent''\<rparr> \<in> set (decks_table demo_world) \<and>
   c_did (demo_card 1 URGENT_DECK_ID 2 100) = d_id \<lparr>d_id = URGENT_DECK_ID, d_name = ''Urgent''\<rparr> \<and>
   join_row (demo_card 1 URGENT_DECK_ID 2 100) \<lparr>n_id = 10, n_flds = ''front'', n_tags = ''tag''\<rparr>
     \<lparr>d_id = URGENT_DECK_ID, d_name = ''Urgent''\<rparr> = demo_row 1 URGENT_DECK_ID 2 100 ''Urgent'' \<and>
   eligible_spec (queue_day demo_world) (queue_now demo_world) (demo_card 1 URGENT_DECK_ID 2 100) \<and>
   demo_row 1 URGENT_DECK_ID 2 100 ''Urgent'' \<in> set (fst (getReviewQueue demo_world True)) \<and>
   demo_row 1 URGENT_DECK_ID 2 100 ''Urgent'' \<in> set (fst (getReviewQueue demo_world False)) \<and>
   demo_row 1 URGENT_DECK_ID 2 100 ''Urgent''
     \<in> set (fst (getReviewQueueByDeck demo_world (Some URGENT_DECK_ID))) \<and>
   demo_row 1 URGENT_DECK_ID 2 100 ''Urgent''
     \<notin> set (fst (getReviewQueueByDeck demo_world (Some 7))) \<and>
   demo_row 1 URGENT_DECK_ID 2 100 ''Urgent'' \<notin> set (select_due demo_world 99 8726400) \<and>
   unit_interval (random orphan_world) \<and>
   demo_card 1 99 2 100 \<in> set (cards_table orphan_world) \<and>
   c_queue (demo_card 1 99 2 100) \<in> {- 1, 0, 1, 2, 3} \<and>
   list_all (\<lambda>d. d_id d \<noteq> c_did (demo_card 1 99 2 100)) (decks_table orphan_world) \<and>
   list_all (\<lambda>r. Card.truncate r \<noteq> demo_card 1 99 2 100)
     (fst (getReviewQueue orphan_world True) @ fst (getReviewQueueByDeck orphan_world (Some 99)))"
proof -
  have j: "join_row (demo_card 1 URGENT_DECK_ID 2 100) \<lparr>n_id = 10, n_flds = ''front'', n_tags = ''tag''\<rparr>
     \<lparr>d_id = URGENT_DECK_ID, d_name = ''Urgent''\<rparr> = demo_row 1 URGENT_DECK_ID 2 100 ''Urgent''"
    by (simp add: join_row_def demo_card_def demo_row_def Card.extend_def CardWithNote.fields_def)
  have t: "demo_card 1 URGENT_DECK_ID 2 100 \<in> set (cards_table demo_world)"
    "\<lparr>n_id = 10, n_flds = ''front'', n_tags = ''tag''\<rparr> \<in> set (notes_table demo_world)"
    "\<lparr>d_id = URGENT_DECK_ID, d_name = ''Urgent''\<rparr> \<in> set (decks_table demo_world)"
    by (simp_all add: demo_world_def)
  have f: "c_queue (demo_card 1 URGENT_DECK_ID 2 100) = 2" "c_nid (demo_card 1 URGENT_DECK_ID 2 100) = 10"
    "c_did (demo_card 1 URGENT_DECK_ID 2 100) = URGENT_DECK_ID" "c_due (demo_card 1 URGENT_DECK_ID 2 100) = 100"
    by (simp_all add: demo_card_def)
  have q: "c_queue (demo_card 1 URGENT_DECK_ID 2 100) \<in> {- 1, 0, 1, 2, 3}"
    by (simp add: f)
  have u: "URGENT_DECK_ID \<noteq> 7"
    by (simp add: URGENT_DECK_ID_def)
  have e: "eligible_spec 100 8726400 (demo_card 1 URGENT_DECK_ID 2 100)"
    "\<not> eligible_spec 99 8726400 (demo_card 1 URGENT_DECK_ID 2 100)"
    by (simp_all add: eligible_spec_def f)
  have o: "demo_card 1 99 2 100 \<in> set (cards_table orphan_world)"
    "c_queue (demo_card 1 99 2 100) \<in> {- 1, 0, 1, 2, 3}"
    "list_all (\<lambda>d. d_id d \<noteq> c_did (demo_card 1 99 2 100)) (decks_table orphan_world)"
    by (simp_all add: orphan_world_def demo_world_def demo_card_def URGENT_DECK_ID_def)
  have f2: "c_queue (demo_card 1 99 2 100) = 2"
    by (simp add: demo_card_def)
  have o': "\<forall>d \<in> set (decks_table orphan_world). d_id d \<noteq> c_did (demo_card 1 99 2 100)"
    using o(3) by (simp add: list_all_iff)
  have a: "demo_row 1 URGENT_DECK_ID 2 100 ''Urgent'' \<in> set (fst (getReviewQueue demo_world True)) \<and>
   demo_row 1 URGENT_DECK_ID 2 100 ''Urgent'' \<in> set (fst (getReviewQueue demo_world False)) \<and>
   demo_row 1 URGENT_DECK_ID 2 100 ''Urgent''
     \<in> set (fst (getReviewQueueByDeck demo_world (Some URGENT_DECK_ID))) \<and>
   demo_row 1 URGENT_DECK_ID 2 100 ''Urgent''
     \<notin> set (fst (getReviewQueueByDeck demo_world (Some 7))) \<and>
   demo_row 1 URGENT_DECK_ID 2 100 ''Urgent'' \<notin> set (select_due demo_world 99 8726400)"
    using C1_eligibility [OF demo_unit_interval(1) t(1) q,
        of "\<lparr>n_id = 10, n_flds = ''front'', n_tags = ''tag''\<rparr>"
        "\<lparr>d_id = URGENT_DECK_ID, d_name = ''Urgent''\<rparr>" URGENT_DECK_ID 99 8726400]
      C1_eligibility [OF demo_unit_interval(1) t(1) q,
        of "\<lparr>n_id = 10, n_flds = ''front'', n_tags = ''tag''\<rparr>"
        "\<lparr>d_id = URGENT_DECK_ID, d_name = ''Urgent''\<rparr>" 7 99 8726400]
    by (simp add: j t f e u demo_day_now)
  have b: "list_all (\<lambda>r. Card.truncate r \<noteq> demo_card 1 99 2 100)
     (fst (getReviewQueue orphan_world True) @ fst (getReviewQueueByDeck orphan_world (Some 99)))"
    using C1_eligibility [OF orphan_unit_interval o(1,2), of _ _ _ _ _ True "Some 99"] o'
    by (simp add: list_all_iff)
  show ?thesis
    using a b by (simp add: j t f f2 e o(1,3) demo_unit_interval orphan_unit_interval demo_day_now)
qed

subsection \<open>C2: the blocking gate\<close>

text \<open>
  Claim C2. For \<^verbatim>\<open>getReviewQueue(false)\<close>, with random numbers in the unit interval:
  when the due cards of the urgent deck are not empty, the result holds exactly those
  rows, each as often as the query gives it, and every row of the result is of the
  urgent deck; when there are none, the result holds exactly the due rows of all decks.
\<close>

theorem C2_blocking_gate:
  assumes "unit_interval (random w)"
  shows "(blocking_set w \<noteq> [] \<longrightarrow>
            mset (fst (getReviewQueue w False)) = mset (blocking_set w) \<and>
            (\<forall>r \<in> set (fst (getReviewQueue w False)). c_did r = URGENT_DECK_ID)) \<and>
         (blocking_set w = [] \<longrightarrow>
            mset (fst (getReviewQueue w False)) = mset (eligible_set w))"
proof -
  have m: "mset (fst (getReviewQueue w False)) =
             mset (if blocking_set w \<noteq> [] then blocking_set w else eligible_set w)"
    using getReviewQueue_mset [OF assms, of False] by simp
  show ?thesis
  proof (cases "blocking_set w = []")
    case True
    then show ?thesis using m by simp
  next
    case False
    then have e: "mset (fst (getReviewQueue w False)) = mset (blocking_set w)"
      using m by simp
    then have "set (fst (getReviewQueue w False)) = set (blocking_set w)"
      by (rule mset_eq_setD)
    then show ?thesis using False e blocking_set_deck by auto
  qed
qed

theorem C2_blocking_gate_witness:
  "unit_interval (random demo_world) \<and>
   blocking_set demo_world \<noteq> [] \<and>
   fst (getReviewQueue demo_world False) = [demo_row 1 URGENT_DECK_ID 2 100 ''Urgent''] \<and>
   map c_did (fst (getReviewQueue demo_world False)) = [URGENT_DECK_ID] \<and>
   unit_interval (random released_world) \<and>
   blocking_set released_world = [] \<and>
   fst (getReviewQueue released_world False) = [demo_row 2 7 0 0 ''Other'']"
proof -
  have a: "fst (getReviewQueue demo_world False) = [demo_row 1 URGENT_DECK_ID 2 100 ''Urgent'']"
    using C2_blocking_gate [of demo_world]
    by (simp add: demo_unit_interval demo_sets mset_single_list)
  have b: "fst (getReviewQueue released_world False) = [demo_row 2 7 0 0 ''Other'']"
    using C2_blocking_gate [of released_world]
    by (simp add: demo_unit_interval released_sets mset_single_list)
  show ?thesis
    by (simp add: a b demo_unit_interval demo_sets released_sets) (simp add: demo_row_def)
qed

subsection \<open>C3: the transition table\<close>

text \<open>
  Claim C3. For each of the four actions, \<^verbatim>\<open>updateCardSchedule\<close> completes and
  leaves every card with the given id with the \<open>queue\<close>, \<open>type\<close>, \<open>due\<close>,
  \<open>ivl\<close> and \<open>reps\<close> of the table of section 4.1, for the \<open>now\<close> and the day
  number that the call computed: repeat gives learning (1), due \<open>now\<close>, interval 0;
  soon gives review (2), due \<open>dayNumber + 1\<close>, interval 1; later gives review (2), due
  \<open>dayNumber + 7\<close>, interval 7; complete gives suspended (-1) and keeps state, due and
  interval; each adds 1 to the repetition count. The other cards stay as they are.
\<close>

theorem C3_transition_table:
  assumes "action \<in> review_actions"
  shows "\<exists>w'. updateCardSchedule w cardId action = Inr w' \<and>
           length (cards_table w') = length (cards_table w) \<and>
           (\<forall>k < length (cards_table w).
              (c_id (cards_table w ! k) = cardId \<longrightarrow>
                 scheduling (cards_table w' ! k) =
                   table_4_1 action (update_now w) (update_day w) (cards_table w ! k)) \<and>
              (c_id (cards_table w ! k) \<noteq> cardId \<longrightarrow>
                 cards_table w' ! k = cards_table w ! k))"
proof -
  obtain w2 where f: "cards_table w2 = cards_table w"
    and r: "updateCardSchedule w cardId ''repeat'' = Inr (update_cards w2 cardId
       (\<lambda>c. c\<lparr>c_due := update_now w, c_ivl := 0, c_mod := update_now w,
               c_reps := c_reps c + 1, c_type := 1, c_queue := 1\<rparr>))"
    and s: "updateCardSchedule w cardId ''soon'' = Inr (update_cards w2 cardId
       (\<lambda>c. c\<lparr>c_due := update_day w + 1, c_ivl := 1, c_mod := update_now w,
               c_reps := c_reps c + 1, c_type := 2, c_queue := 2\<rparr>))"
    and l: "updateCardSchedule w cardId ''later'' = Inr (update_cards w2 cardId
       (\<lambda>c. c\<lparr>c_due := update_day w + 7, c_ivl := 7, c_mod := update_now w,
               c_reps := c_reps c + 1, c_type := 2, c_queue := 2\<rparr>))"
    and c: "updateCardSchedule w cardId ''complete'' = Inr (update_cards w2 cardId
       (\<lambda>c. c\<lparr>c_queue := - 1, c_mod := update_now w, c_reps := c_reps c + 1\<rparr>))"
    by (rule updateCardSchedule_cases [of w cardId])
  from assms consider "action = ''repeat''" | "action = ''soon''" | "action = ''later''"
    | "action = ''complete''"
    by (auto simp: review_actions_def)
  then show ?thesis
  proof cases
    case 1
    then show ?thesis
      by (simp add: r update_cards_tables f scheduling_def table_4_1_def)
  next
    case 2
    then show ?thesis
      by (simp add: s update_cards_tables f scheduling_def table_4_1_def)
  next
    case 3
    then show ?thesis
      by (simp add: l update_cards_tables f scheduling_def table_4_1_def)
  next
    case 4
    then show ?thesis
      by (simp add: c update_cards_tables f scheduling_def table_4_1_def)
  qed
qed

theorem C3_transition_table_witness:
  "''later'' \<in> review_actions \<and>
   update_day demo_world = 100 \<and>
   c_id (cards_table demo_world ! 0) = 1 \<and>
   c_reps (cards_table demo_world ! 0) = 3 \<and>
   map scheduling (cards_table (projr (updateCardSchedule demo_world 1 ''later''))) =
     [(2, 2, 107, 7, 4), (0, 2, 0, 3, 3), (2, 2, 101, 3, 3), (- 1, 2, 0, 3, 3)]"
  using C3_transition_table [of "''later''" demo_world 1]
  by (simp add: demo_later_cards demo_update_clock review_actions_def scheduling_def)
    (simp add: demo_world_def demo_card_def)

subsection \<open>C4: what GET passes to getReviewQueue\<close>

text \<open>
  Claim C4. For a \<^verbatim>\<open>GET\<close> without \<^verbatim>\<open>deckId\<close> (absent or empty) that does not ask
  for the deck list, with random numbers in the unit interval: the cards of the answer
  are those of \<^verbatim>\<open>getReviewQueue\<close> called with the negation of the \<^verbatim>\<open>all\<close> flag. When
  \<^verbatim>\<open>all\<close> is absent or not \<^verbatim>\<open>true\<close>, they are the due rows of all decks, also when
  urgent cards are due; when \<^verbatim>\<open>all=true\<close>, the gate applies: the due urgent rows alone
  when there are any, else the due rows of all decks.
\<close>

theorem C4_GET_negates_all:
  assumes "q_listDecks q \<noteq> Some ''true''"
    and "q_deckId q = None \<or> q_deckId q = Some []"
    and "unit_interval (random w)"
  shows "\<exists>cards urgentCount isBlocking.
           fst (GET parseInt10 w q) = (QueueBody cards urgentCount isBlocking URGENT_DECK_ID, 200) \<and>
           cards = fst (getReviewQueue w (q_all q \<noteq> Some ''true'')) \<and>
           (q_all q \<noteq> Some ''true'' \<longrightarrow> mset cards = mset (eligible_set w)) \<and>
           (q_all q = Some ''true'' \<longrightarrow>
              mset cards = mset (if blocking_set w \<noteq> [] then blocking_set w else eligible_set w))"
proof -
  obtain cards w1 where c: "getReviewQueue w (q_all q \<noteq> Some ''true'') = (cards, w1)"
    by (cases "getReviewQueue w (q_all q \<noteq> Some ''true'')")
  obtain urgentCount w2 where u: "getUrgentCount w1 = (urgentCount, w2)"
    by (cases "getUrgentCount w1")
  have g: "fst (GET parseInt10 w q) = (QueueBody cards urgentCount (urgentCount > 0) URGENT_DECK_ID, 200)"
    using assms(1,2) by (auto simp: GET_def c u)
  have m: "mset cards = mset (if blocking_set w \<noteq> [] \<and> \<not> (q_all q \<noteq> Some ''true'')
                              then blocking_set w else eligible_set w)"
    using getReviewQueue_mset [OF assms(3), of "q_all q \<noteq> Some ''true''"] by (simp add: c)
  have "q_all q \<noteq> Some ''true'' \<longrightarrow> mset cards = mset (eligible_set w)"
    using m by simp
  moreover have "q_all q = Some ''true'' \<longrightarrow>
              mset cards = mset (if blocking_set w \<noteq> [] then blocking_set w else eligible_set w)"
    using m by simp
  moreover have "cards = fst (getReviewQueue w (q_all q \<noteq> Some ''true''))"
    by (simp add: c)
  ultimately show ?thesis
    using g by blast
qed

theorem C4_GET_negates_all_witness:
  "q_listDecks \<lparr>q_all = None, q_deckId = None, q_listDecks = None\<rparr> \<noteq> Some ''true'' \<and>
   q_deckId \<lparr>q_all = None, q_deckId = None, q_listDecks = None\<rparr> = None \<and>
   unit_interval (random demo_world) \<and>
   blocking_set demo_world = [demo_row 1 URGENT_DECK_ID 2 100 ''Urgent''] \<and>
   fst (GET (\<lambda>s. None) demo_world \<lparr>q_all = None, q_deckId = None, q_listDecks = None\<rparr>) =
     (QueueBody [demo_row 1 URGENT_DECK_ID 2 100 ''Urgent'', demo_row 2 7 0 0 ''Other''] 1 True
        URGENT_DECK_ID, 200) \<and>
   fst (GET (\<lambda>s. None) demo_world \<lparr>q_all = Some ''true'', q_deckId = None, q_listDecks = None\<rparr>) =
     (QueueBody [demo_row 1 URGENT_DECK_ID 2 100 ''Urgent''] 1 True URGENT_DECK_ID, 200)"
proof -
  have a: "fst (GET (\<lambda>s. None) demo_world \<lparr>q_all = None, q_deckId = None, q_listDecks = None\<rparr>) =
     (QueueBody [demo_row 1 URGENT_DECK_ID 2 100 ''Urgent'', demo_row 2 7 0 0 ''Other''] 1 True
        URGENT_DECK_ID, 200)"
    by (simp add: GET_def getReviewQueue_def getUrgentCount_def
      getTodayDayNumber_def getCollectionCreation_def unix_now_def Date_now_def demo_world_def
      demo_card_def select_due_in_deck_def select_due_def cards_notes_decks_def join_row_def
      Card.extend_def CardWithNote.fields_def is_due_def URGENT_DECK_ID_def shuffled_def
      shuffleArray_def Math_random_def swap_def demo_row_def)
  have b: "fst (GET (\<lambda>s. None) demo_world \<lparr>q_all = Some ''true'', q_deckId = None, q_listDecks = None\<rparr>) =
     (QueueBody [demo_row 1 URGENT_DECK_ID 2 100 ''Urgent''] 1 True URGENT_DECK_ID, 200)"
    by (simp add: GET_def getReviewQueue_def getUrgentCount_def
      getTodayDayNumber_def getCollectionCreation_def unix_now_def Date_now_def demo_world_def
      demo_card_def select_due_in_deck_def select_due_def cards_notes_decks_def join_row_def
      Card.extend_def CardWithNote.fields_def is_due_def URGENT_DECK_ID_def shuffled_def
      shuffleArray_def Math_random_def swap_def demo_row_def)
  show ?thesis
    using C4_GET_negates_all [of "\<lparr>q_all = None, q_deckId = None, q_listDecks = None\<rparr>"
        demo_world "\<lambda>s. None"]
      C4_GET_negates_all [of "\<lparr>q_all = Some ''true'', q_deckId = None, q_listDecks = None\<rparr>"
        demo_world "\<lambda>s. None"]
    by (simp add: a b demo_unit_interval demo_sets)
qed

subsection \<open>C5: an action that is not one of the four literals\<close>

text \<open>
  Claim C5 says that \<^verbatim>\<open>updateCardSchedule\<close> signals an invalid-argument failure
  for such an action. It does not: the \<^verbatim>\<open>switch\<close> matches no case and the call
  completes, having changed nothing.
\<close>

theorem C5_invalid_action_counterexample:
  "\<not> isl (updateCardSchedule demo_world 1 ''skip'') \<and>
   cards_table (projr (updateCardSchedule demo_world 1 ''skip'')) = cards_table demo_world"
  by (simp add: demo_skip)

text \<open>
  Claim C5, amended. For an action that is not one of the four literals,
  \<^verbatim>\<open>updateCardSchedule\<close> completes without a signal and changes no table; the
  failure is signalled by the \<^verbatim>\<open>POST\<close> handler, which answers such an action with
  status 400 and an error, calls nothing and leaves the state as it is.
\<close>

theorem C5_invalid_action:
  assumes "action \<notin> review_actions"
  shows "(\<exists>w'. updateCardSchedule w cardId action = Inr w' \<and>
              cards_table w' = cards_table w \<and> notes_table w' = notes_table w \<and>
              decks_table w' = decks_table w) \<and>
         (\<exists>message. POST w (Inr \<lparr>b_cardId = cid, b_action = Some action\<rparr>) =
              ((ErrorBody message, 400), w))"
proof -
  obtain w2 where f: "cards_table w2 = cards_table w" "notes_table w2 = notes_table w"
    "decks_table w2 = decks_table w"
    and n: "\<forall>action. action \<notin> review_actions \<longrightarrow> updateCardSchedule w cardId action = Inr w2"
    by (rule updateCardSchedule_cases [of w cardId])
  have "\<exists>w'. updateCardSchedule w cardId action = Inr w' \<and>
              cards_table w' = cards_table w \<and> notes_table w' = notes_table w \<and>
              decks_table w' = decks_table w"
    using n assms f by simp
  moreover have "\<exists>message. POST w (Inr \<lparr>b_cardId = cid, b_action = Some action\<rparr>) =
              ((ErrorBody message, 400), w)"
    using assms by (simp add: POST_def review_actions_def)
  ultimately show ?thesis by blast
qed

theorem C5_invalid_action_witness:
  "''skip'' \<notin> review_actions \<and>
   updateCardSchedule demo_world 1 ''skip'' = Inr (demo_world\<lparr>ticks := 2\<rparr>) \<and>
   POST demo_world (Inr \<lparr>b_cardId = Some 1, b_action = Some ''skip''\<rparr>) =
     ((ErrorBody ''Invalid action'', 400), demo_world)"
  using C5_invalid_action [of "''skip''" demo_world 1 "Some 1"]
  by (simp add: demo_skip review_actions_def POST_def)

subsection \<open>C6: a card id that no card has\<close>

text \<open>
  Claim C6 says that a not-found condition is signalled for such an id. Nothing is
  signalled: the \<^verbatim>\<open>UPDATE\<close> matches no row, \<^verbatim>\<open>updateCardSchedule\<close> completes, and
  the \<^verbatim>\<open>POST\<close> handler answers \<^verbatim>\<open>success: true\<close> with status 200.
\<close>

theorem C6_unknown_card_counterexample:
  "\<not> isl (updateCardSchedule demo_world 99 ''soon'') \<and>
   fst (POST demo_world (Inr \<lparr>b_cardId = Some 99, b_action = Some ''soon''\<rparr>)) =
     (ReviewedBody True 1 1 True, 200)"
  by (simp add: demo_unknown_card demo_post_unknown)

text \<open>
  Claim C6, amended. For a card id that no card has and each of the four actions,
  \<^verbatim>\<open>updateCardSchedule\<close> completes and changes no table, and no not-found condition
  is signalled: for an id other than 0, the \<^verbatim>\<open>POST\<close> handler answers
  \<^verbatim>\<open>success: true\<close> with status 200.
\<close>

theorem C6_unknown_card:
  assumes "\<forall>c \<in> set (cards_table w). c_id c \<noteq> cardId" and "action \<in> review_actions"
  shows "(\<exists>w'. updateCardSchedule w cardId action = Inr w' \<and>
              cards_table w' = cards_table w \<and> notes_table w' = notes_table w \<and>
              decks_table w' = decks_table w) \<and>
         (cardId \<noteq> 0 \<longrightarrow>
            (\<exists>remainingCards urgentCount isBlocking.
               fst (POST w (Inr \<lparr>b_cardId = Some cardId, b_action = Some action\<rparr>)) =
                 (ReviewedBody True remainingCards urgentCount isBlocking, 200)))"
proof -
  obtain w2 where f: "cards_table w2 = cards_table w" "notes_table w2 = notes_table w"
    "decks_table w2 = decks_table w"
    and r: "updateCardSchedule w cardId ''repeat'' = Inr (update_cards w2 cardId
       (\<lambda>c. c\<lparr>c_due := update_now w, c_ivl := 0, c_mod := update_now w,
               c_reps := c_reps c + 1, c_type := 1, c_queue := 1\<rparr>))"
    and s: "updateCardSchedule w cardId ''soon'' = Inr (update_cards w2 cardId
       (\<lambda>c. c\<lparr>c_due := update_day w + 1, c_ivl := 1, c_mod := update_now w,
               c_reps := c_reps c + 1, c_type := 2, c_queue := 2\<rparr>))"
    and l: "updateCardSchedule w cardId ''later'' = Inr (update_cards w2 cardId
       (\<lambda>c. c\<lparr>c_due := update_day w + 7, c_ivl := 7, c_mod := update_now w,
               c_reps := c_reps c + 1, c_type := 2, c_queue := 2\<rparr>))"
    and c: "updateCardSchedule w cardId ''complete'' = Inr (update_cards w2 cardId
       (\<lambda>c. c\<lparr>c_queue := - 1, c_mod := update_now w, c_reps := c_reps c + 1\<rparr>))"
    by (rule updateCardSchedule_cases [of w cardId])
  have m: "\<forall>c \<in> set (cards_table w2). c_id c \<noteq> cardId"
    using assms(1) by (simp only: f)
  have t: "cards_table (update_cards w2 cardId g) = cards_table w" for g
    using update_cards_no_match [OF m, of g] by (simp only: f)
  from assms(2) consider "action = ''repeat''" | "action = ''soon''" | "action = ''later''"
    | "action = ''complete''"
    by (auto simp: review_actions_def)
  then have u: "\<exists>w'. updateCardSchedule w cardId action = Inr w' \<and>
              cards_table w' = cards_table w \<and> notes_table w' = notes_table w \<and>
              decks_table w' = decks_table w"
  proof cases
    case 1
    then show ?thesis by (simp add: r t update_cards_tables(2,3) f(2,3))
  next
    case 2
    then show ?thesis by (simp add: s t update_cards_tables(2,3) f(2,3))
  next
    case 3
    then show ?thesis by (simp add: l t update_cards_tables(2,3) f(2,3))
  next
    case 4
    then show ?thesis by (simp add: c t update_cards_tables(2,3) f(2,3))
  qed
  then obtain w' where w': "updateCardSchedule w cardId action = Inr w'"
    by blast
  obtain cards w3 where q: "getReviewQueue w' False = (cards, w3)"
    by (cases "getReviewQueue w' False")
  obtain urgentCount w4 where g: "getUrgentCount w3 = (urgentCount, w4)"
    by (cases "getUrgentCount w3")
  have a: "action \<noteq> []" "action \<in> set [''repeat'', ''soon'', ''later'', ''complete'']"
    using assms(2) by (auto simp: review_actions_def)
  have "fst (POST w (Inr \<lparr>b_cardId = Some cardId, b_action = Some action\<rparr>)) =
          (ReviewedBody True (length cards) urgentCount (urgentCount > 0), 200)"
    if "cardId \<noteq> 0"
    using that a by (simp add: POST_def w' q g)
  then show ?thesis using u by blast
qed

theorem C6_unknown_card_witness:
  "99 \<notin> c_id ` set (cards_table demo_world) \<and>
   ''complete'' \<in> review_actions \<and>
   cards_table (projr (updateCardSchedule demo_world 99 ''complete'')) = cards_table demo_world \<and>
   fst (POST demo_world (Inr \<lparr>b_cardId = Some 99, b_action = Some ''complete''\<rparr>)) =
     (ReviewedBody True 1 1 True, 200)"
  using C6_unknown_card [of demo_world 99 "''complete''"]
  by (simp add: demo_unknown_card demo_post_unknown review_actions_def)
    (simp add: demo_world_def demo_card_def)

subsection \<open>C7: the clock readings behind the day number and the timestamp\<close>

text \<open>
  Claim C7 says that \<open>now\<close> and \<open>dayNumber\<close> of one \<^verbatim>\<open>getReviewQueue\<close> call come
  from one clock reading, with \<open>dayNumber = floor((now - creationTime) / 86400)\<close>.
  They come from two: \<^verbatim>\<open>getTodayDayNumber\<close> reads the clock, and \<^verbatim>\<open>getReviewQueue\<close>
  reads it again for \<^verbatim>\<open>nowTimestamp\<close>. When midnight falls between the two readings,
  \<open>dayNumber\<close> is the day before the day of \<open>now\<close>: here \<open>now\<close> is in day 100 and
  \<open>dayNumber\<close> is 99, so the urgent review card due on day 100 is not selected and
  the cards of the other decks are returned.
\<close>

theorem C7_one_clock_reading_counterexample:
  "queue_day midnight_world \<noteq> (queue_now midnight_world - 86400) div 86400 \<and>
   col_crt midnight_world = Some 86400 \<and>
   queue_now midnight_world = 8726400 \<and>
   (queue_now midnight_world - 86400) div 86400 = 100 \<and>
   queue_day midnight_world = 99 \<and>
   select_due_in_deck midnight_world URGENT_DECK_ID 100 8726400 =
     [demo_row 1 URGENT_DECK_ID 2 100 ''Urgent''] \<and>
   fst (getReviewQueue midnight_world False) = [demo_row 2 7 0 0 ''Other'']"
proof -
  have "mset (fst (getReviewQueue midnight_world False)) = {#demo_row 2 7 0 0 ''Other''#}"
    using getReviewQueue_mset [OF demo_unit_interval(3), of False]
    by (simp add: midnight_sets)
  then have "fst (getReviewQueue midnight_world False) = [demo_row 2 7 0 0 ''Other'']"
    by (rule mset_single_list)
  moreover have "select_due_in_deck midnight_world URGENT_DECK_ID 100 8726400 =
     [demo_row 1 URGENT_DECK_ID 2 100 ''Urgent'']"
    by (simp add: select_due_in_deck_def midnight_join demo_join is_due_def demo_row_def
        URGENT_DECK_ID_def)
  moreover have "col_crt midnight_world = Some 86400"
    by (simp add: midnight_world_def demo_world_def)
  ultimately show ?thesis
    by (simp add: demo_day_now)
qed

text \<open>
  Claim C7, amended. In one \<^verbatim>\<open>getReviewQueue\<close> call (with a stored, non-zero
  creation time) \<open>dayNumber\<close> is \<open>floor((t1 - creationTime) / 86400)\<close> for the first
  clock reading \<open>t1\<close> of the call, in seconds, and \<open>now\<close> is the second reading, in
  seconds. When both readings fall in the same second,
  \<open>dayNumber = floor((now - creationTime) / 86400)\<close>. Each of the two is computed once:
  every returned row passed the condition for this one \<open>dayNumber\<close> and this one \<open>now\<close>.
\<close>

theorem C7_two_clock_readings:
  assumes "col_crt w = Some creationTime" and "creationTime \<noteq> 0"
    and "unit_interval (random w)"
  shows "queue_day w = (clock w (ticks w) div 1000 - creationTime) div 86400 \<and>
         queue_now w = clock w (Suc (ticks w)) div 1000 \<and>
         (clock w (Suc (ticks w)) div 1000 = clock w (ticks w) div 1000 \<longrightarrow>
            queue_day w = (queue_now w - creationTime) div 86400) \<and>
         (\<forall>r \<in> set (fst (getReviewQueue w includeNonUrgent)).
            is_due (queue_day w) (queue_now w) r)"
  using queue_clock_readings [OF assms(1,2)] getReviewQueue_is_due [OF assms(3)]
  by auto

theorem C7_two_clock_readings_witness:
  "col_crt demo_world = Some 86400 \<and> (86400::int) \<noteq> 0 \<and>
   unit_interval (random demo_world) \<and>
   clock demo_world (Suc (ticks demo_world)) div 1000 = clock demo_world (ticks demo_world) div 1000 \<and>
   queue_day demo_world = (queue_now demo_world - 86400) div 86400 \<and>
   queue_day demo_world = 100 \<and> queue_now demo_world = 8726400 \<and>
   fst (getReviewQueue demo_world False) = [demo_row 1 URGENT_DECK_ID 2 100 ''Urgent''] \<and>
   list_all (is_due 100 8726400) (fst (getReviewQueue demo_world False))"
proof -
  have "mset (fst (getReviewQueue demo_world False)) =
          {#demo_row 1 URGENT_DECK_ID 2 100 ''Urgent''#}"
    using getReviewQueue_mset [OF demo_unit_interval(1), of False]
    by (simp add: demo_sets)
  then have q: "fst (getReviewQueue demo_world False) = [demo_row 1 URGENT_DECK_ID 2 100 ''Urgent'']"
    by (rule mset_single_list)
  have c: "col_crt demo_world = Some 86400" "clock demo_world = (\<lambda>k. 8726400000)"
    by (simp_all add: demo_world_def)
  show ?thesis
    using C7_two_clock_readings [of demo_world 86400 False]
    by (simp add: q c demo_unit_interval demo_day_now)
qed

subsection \<open>C8: the shuffle is a permutation\<close>

text \<open>
  Claim C8. With random numbers in the unit interval, \<^verbatim>\<open>shuffleArray\<close> returns a
  permutation of its argument: the multiset of the result is the multiset of the
  input. So the result of \<^verbatim>\<open>getReviewQueue\<close> and of \<^verbatim>\<open>getReviewQueueByDeck\<close> has
  exactly the rows of the query it shuffles, none twice and none dropped.
\<close>

theorem C8_shuffle_is_a_permutation:
  assumes "unit_interval g" and "unit_interval (random w)"
  shows "mset (fst (shuffleArray array g)) = mset array \<and>
         mset (fst (getReviewQueue w includeNonUrgent)) =
           mset (if blocking_set w \<noteq> [] \<and> \<not> includeNonUrgent
                 then blocking_set w else eligible_set w) \<and>
         mset (fst (getReviewQueueByDeck w deckId)) =
           mset (case deckId of
                   Some d \<Rightarrow> select_due_in_deck w d (queue_day w) (queue_now w)
                 | None \<Rightarrow> [])"
  using shuffleArray_mset [OF assms(1)] getReviewQueue_mset [OF assms(2)]
    getReviewQueueByDeck_mset [OF assms(2)]
  by blast

theorem C8_shuffle_is_a_permutation_witness:
  "unit_interval (random demo_world) \<and>
   mset (fst (shuffleArray [1, 2, 3, 4 :: int] (random demo_world))) = {#1, 2, 3, 4#} \<and>
   fst (shuffleArray [1, 2, 3, 4 :: int] (random demo_world)) = [1, 4, 2, 3] \<and>
   mset (fst (getReviewQueue demo_world True)) =
     {#demo_row 1 URGENT_DECK_ID 2 100 ''Urgent'', demo_row 2 7 0 0 ''Other''#} \<and>
   mset (fst (getReviewQueueByDeck demo_world (Some 7))) = {#demo_row 2 7 0 0 ''Other''#}"
proof -
  have e: "fst (shuffleArray [1, 2, 3, 4 :: int] (random demo_world)) = [1, 4, 2, 3]"
    by (simp add: shuffleArray_def Math_random_def swap_def demo_world_def)
  have d: "select_due_in_deck demo_world 7 100 8726400 = [demo_row 2 7 0 0 ''Other'']"
    by (simp add: select_due_in_deck_def demo_join is_due_def demo_row_def URGENT_DECK_ID_def)
  show ?thesis
    using C8_shuffle_is_a_permutation [of "random demo_world" demo_world "[1, 2, 3, 4 :: int]"
        True "Some 7"] e
    by (simp add: demo_unit_interval demo_sets demo_day_now d)
qed

subsection \<open>C9: a repeated card is due again\<close>

text \<open>
  Claim C9. After \<^verbatim>\<open>updateCardSchedule\<close> with \<^verbatim>\<open>repeat\<close> at time \<open>T\<close> (the \<open>now\<close>
  of the call), every card with the given id is in the learning queue with due \<open>T\<close>,
  and it passes the condition of the queue queries for every day number and every
  time \<open>T' \<ge> T\<close>: each of its rows in the join is selected by the all-decks query and by
  the query of its deck.
\<close>

theorem C9_repeat_is_due_again:
  assumes "update_now w \<le> T'"
  shows "\<exists>w'. updateCardSchedule w cardId ''repeat'' = Inr w' \<and>
           (\<forall>c \<in> set (cards_table w'). c_id c = cardId \<longrightarrow>
              c_queue c = 1 \<and> c_due c = update_now w \<and> is_due dayNumber' T' c) \<and>
           (\<forall>r \<in> set (cards_notes_decks w'). c_id r = cardId \<longrightarrow>
              r \<in> set (select_due w' dayNumber' T') \<and>
              r \<in> set (select_due_in_deck w' (c_did r) dayNumber' T'))"
proof -
  obtain w2 where f: "cards_table w2 = cards_table w"
    and r: "updateCardSchedule w cardId ''repeat'' = Inr (update_cards w2 cardId
       (\<lambda>c. c\<lparr>c_due := update_now w, c_ivl := 0, c_mod := update_now w,
               c_reps := c_reps c + 1, c_type := 1, c_queue := 1\<rparr>))"
    using updateCardSchedule_repeat by blast
  let ?w = "update_cards w2 cardId
       (\<lambda>c. c\<lparr>c_due := update_now w, c_ivl := 0, c_mod := update_now w,
               c_reps := c_reps c + 1, c_type := 1, c_queue := 1\<rparr>)"
  have c: "c_queue c = 1 \<and> c_due c = update_now w"
    if m: "c \<in> set (cards_table ?w)" and i: "c_id c = cardId" for c
  proof -
    from update_cards_member [OF m] i obtain x where
      "c = x\<lparr>c_due := update_now w, c_ivl := 0, c_mod := update_now w,
              c_reps := c_reps x + 1, c_type := 1, c_queue := 1\<rparr>"
      by blast
    then show ?thesis by simp
  qed
  have d: "is_due dayNumber' T' c"
    if "c_queue c = 1" "c_due c = update_now w" for c :: "'a Card_scheme"
    using that assms by (simp add: is_due_def)
  have j: "r \<in> set (select_due ?w dayNumber' T') \<and>
           r \<in> set (select_due_in_deck ?w (c_did r) dayNumber' T')"
    if rm: "r \<in> set (cards_notes_decks ?w)" and ri: "c_id r = cardId" for r
  proof -
    obtain c where cm: "c \<in> set (cards_table ?w)"
      and e: "c_id r = c_id c" "c_queue r = c_queue c" "c_due r = c_due c"
      using cards_notes_decks_row [OF rm] by blast
    have ci: "c_id c = cardId"
      using e(1) ri by metis
    have "c_queue c = 1 \<and> c_due c = update_now w"
      using c [OF cm ci] .
    then have "c_queue r = 1" "c_due r = update_now w"
      using e(2,3) by metis+
    then have "is_due dayNumber' T' r" by (rule d)
    then show ?thesis
      using rm by (simp add: select_due_def select_due_in_deck_def)
  qed
  have "\<forall>c \<in> set (cards_table ?w). c_id c = cardId \<longrightarrow>
              c_queue c = 1 \<and> c_due c = update_now w \<and> is_due dayNumber' T' c"
    using c d by blast
  moreover have "\<forall>r \<in> set (cards_notes_decks ?w). c_id r = cardId \<longrightarrow>
              r \<in> set (select_due ?w dayNumber' T') \<and>
              r \<in> set (select_due_in_deck ?w (c_did r) dayNumber' T')"
    using j by blast
  ultimately show ?thesis
    unfolding r by (intro exI [of _ ?w] conjI refl)
qed

theorem C9_repeat_is_due_again_witness:
  "update_now demo_world \<le> 8726400 \<and>
   map c_id (select_due demo_world 100 8726400) = [1, 2] \<and>
   map c_id (select_due (projr (updateCardSchedule demo_world 3 ''repeat'')) 100 8726400) =
     [1, 2, 3] \<and>
   map c_id (select_due_in_deck (projr (updateCardSchedule demo_world 3 ''repeat'')) 7 100
     8726400) = [2, 3]"
  using C9_repeat_is_due_again [of demo_world 8726400 3 100]
  by (simp add: demo_update_clock select_due_def select_due_in_deck_def demo_repeat_join
      demo_join is_due_def demo_row_def URGENT_DECK_ID_def)

subsection \<open>C10: the argument of shuffleArray\<close>

text \<open>
  Claim C10. \<^verbatim>\<open>shuffleArray\<close> does not write to its argument: on the store of
  arrays, after the call the array at the reference passed in, and every other array
  that existed before the call, has the elements it had, in the same order. The result
  is a new reference, and the array there is the shuffled copy.
\<close>

theorem C10_shuffleArray_keeps_its_argument:
  assumes "array < length h"
  shows "\<exists>result h' g'. shuffleArray_ref h array g = (result, h', g') \<and>
           h' ! array = h ! array \<and>
           (\<forall>a < length h. h' ! a = h ! a) \<and>
           result = length h \<and>
           h' ! result = fst (shuffleArray (h ! array) g) \<and>
           g' = snd (shuffleArray (h ! array) g)"
proof -
  let ?h1 = "h @ [h ! array]"
  let ?r = "length h"
  have r: "?r < length ?h1" by simp
  have c: "?h1 ! ?r = h ! array" by simp
  have e: "shuffleArray_ref h array g =
      (?r, ?h1[?r := fst (shuffleArray (h ! array) g)], snd (shuffleArray (h ! array) g))"
    unfolding shuffleArray_ref_def spread_copy_def shuffleArray_def
    by (simp only: split_conv Let_def shuffle_loop_ref_eq [OF r] c)
  have f: "(?h1[?r := x]) ! a = h ! a" if "a < length h" for a x
    using that by (simp add: nth_append)
  have n: "(?h1[?r := x]) ! ?r = x" for x
    by simp
  show ?thesis
    unfolding e using assms f n by blast
qed

theorem C10_shuffleArray_keeps_its_argument_witness:
  "(0::nat) < length [[1, 2, 3, 4 :: int], [5, 6]] \<and>
   fst (shuffleArray_ref [[1, 2, 3, 4 :: int], [5, 6]] 0 (random demo_world)) = 2 \<and>
   fst (snd (shuffleArray_ref [[1, 2, 3, 4 :: int], [5, 6]] 0 (random demo_world))) =
     [[1, 2, 3, 4], [5, 6], [1, 4, 2, 3]]"
  using C10_shuffleArray_keeps_its_argument [of 0 "[[1, 2, 3, 4 :: int], [5, 6]]"
      "random demo_world"]
  by (simp add: shuffleArray_ref_def spread_copy_def array_get_def array_set_def
      Math_random_def demo_world_def)

end
